theory Spec2Isabelle
  imports Main "HOL-Library.Char_ord" "HOL-Library.List_Lexorder" "HOL-Library.AList"
    "HOL-Library.Multiset"
begin

section \<open>JavaScript values the memory bank relies on\<close>

text \<open>
  The memory bank keeps its component table and its cache in plain object literals and
  reads them with \<^verbatim>\<open>obj[key]\<close>. Such a read finds the object's own properties first
  and then the properties every object inherits from \<^verbatim>\<open>Object.prototype\<close>; both are
  part of what the guards \<^verbatim>\<open>!this.components[componentName]\<close> and
  \<^verbatim>\<open>this.cache.data[componentName]\<close> see. Own properties are strings here; an inherited
  property is a function (or, for \<^verbatim>\<open>__proto__\<close>, the prototype object), hence truthy.
\<close>

datatype js_value = Own string | Inherited string | Undefined

definition object_prototype :: "string list" where
  "object_prototype =
     [''constructor'', ''__defineGetter__'', ''__defineSetter__'', ''hasOwnProperty'',
      ''__lookupGetter__'', ''__lookupSetter__'', ''isPrototypeOf'', ''propertyIsEnumerable'',
      ''toString'', ''valueOf'', ''__proto__'', ''toLocaleString'']"

definition js_get :: "(string \<times> string) list \<Rightarrow> string \<Rightarrow> js_value" where
  "js_get obj k =
     (case map_of obj k of
        Some v \<Rightarrow> Own v
      | None \<Rightarrow> if k \<in> set object_prototype then Inherited k else Undefined)"

text \<open>Assigning to \<^verbatim>\<open>obj['__proto__']\<close> creates no own property; any other key becomes an own
  property (an existing key keeps its place in the enumeration order).\<close>

definition js_set :: "(string \<times> 'a) list \<Rightarrow> string \<Rightarrow> 'a \<Rightarrow> (string \<times> 'a) list" where
  "js_set obj k v = (if k = ''__proto__'' then obj else AList.update k v obj)"

fun truthy :: "js_value \<Rightarrow> bool" where
  "truthy (Own s) = (s \<noteq> [])"
| "truthy (Inherited k) = True"
| "truthy Undefined = False"

text \<open>\<^verbatim>\<open>Number.prototype.toString\<close> on a non-negative integer: its decimal digits.\<close>

definition digit :: "nat \<Rightarrow> char" where
  "digit d = ''0123456789'' ! d"

function dec :: "nat \<Rightarrow> string" where
  "dec n = (if n < 10 then [digit n] else dec (n div 10) @ [digit (n mod 10)])"
  by pat_completeness auto
termination
  by (relation "measure (\<lambda>n. n)") auto

declare dec.simps [simp del]

text \<open>One reading of the clock: \<^verbatim>\<open>Date.now()\<close> and \<^verbatim>\<open>new Date().toISOString()\<close>. A call of
  the manager is given one reading, used for every date it takes.\<close>

record clock =
  now_ms :: nat
  now_iso :: string

section \<open>Errors and backend operations\<close>

datatype io_op =
    EnsureBaseDir
  | ExistsComponentFile string
  | ReadComponentFile string
  | WriteComponentFile string
  | AppendComponentFile string
  | EnsureHistoryDir string
  | ExistsHistoryDir string
  | ReadHistoryDir string
  | ExistsHistoryFile string string
  | ReadHistoryFile string string
  | WriteHistoryFile string string
  | RemoveHistoryFile string string
  | DbInitialize
  | DbSelectComponent string
  | DbUpsertComponent string
  | DbInsertHistory string
  | DbSelectHistory string
  | DbSelectKeepIds string
  | DbDeleteHistory string
  | DbSelectAllComponents

datatype error =
    UnknownComponent string
  | VersionNotFound string string
  | TypeError
  | IOError io_op
  | DatatypeMismatch
  | CallbackError string

section \<open>Notification manager\<close>

datatype payload =
    ComponentPayload string string string
  | HistoryPayload string string string
  | TimestampPayload string

text \<open>A subscriber callback is invoked with the event type and the data; it returns
  normally (\<open>None\<close>) or throws (\<open>Some e\<close>).\<close>

type_synonym callback = "string \<Rightarrow> payload \<Rightarrow> error option"

record subscription =
  connectionId :: string
  eventTypes :: "string list"
  callback :: callback

text \<open>\<open>subscriptions\<close> is the \<^verbatim>\<open>Map\<close> of the source (insertion order kept), \<open>listeners\<close> the
  functions registered with \<^verbatim>\<open>this.on\<close> in registration order, each with its event type and
  the subscription id it closes over. \<open>delivered\<close> records every callback invocation.\<close>

record notification_manager =
  subscriptions :: "(string \<times> subscription) list"
  listeners :: "(string \<times> string \<times> callback) list"
  delivered :: "(string \<times> string \<times> payload) list"

definition EVENT_TYPES :: "string list" where
  "EVENT_TYPES =
     [''component-updated'', ''component-created'', ''component-history-added'',
      ''memory-bank-initialized'', ''cache-cleared'']"

definition new_notification_manager :: notification_manager where
  "new_notification_manager = \<lparr>subscriptions = [], listeners = [], delivered = []\<rparr>"

definition subscribe ::
  "nat \<Rightarrow> string \<Rightarrow> string list option \<Rightarrow> callback \<Rightarrow> notification_manager
     \<Rightarrow> string \<times> notification_manager" where
  "subscribe now conn evs cb nm =
     (let subscriptionId = conn @ ''-'' @ dec now;
          events = (case evs of None \<Rightarrow> EVENT_TYPES | Some es \<Rightarrow> es);
          sub = \<lparr>connectionId = conn, eventTypes = events, callback = cb\<rparr>
      in (subscriptionId,
          nm\<lparr>subscriptions := AList.update subscriptionId sub (subscriptions nm),
             listeners := listeners nm @ map (\<lambda>e. (e, subscriptionId, cb)) events\<rparr>))"

definition unsubscribe :: "string \<Rightarrow> notification_manager \<Rightarrow> bool \<times> notification_manager" where
  "unsubscribe subscriptionId nm =
     (if map_of (subscriptions nm) subscriptionId \<noteq> None
      then (True, nm\<lparr>subscriptions := AList.delete subscriptionId (subscriptions nm)\<rparr>)
      else (False, nm))"

definition unsubscribeAll :: "string \<Rightarrow> notification_manager \<Rightarrow> nat \<times> notification_manager" where
  "unsubscribeAll conn nm =
     (length (filter (\<lambda>(sid, s). connectionId s = conn) (subscriptions nm)),
      nm\<lparr>subscriptions := filter (\<lambda>(sid, s). connectionId s \<noteq> conn) (subscriptions nm)\<rparr>)"

text \<open>\<^verbatim>\<open>EventEmitter.emit\<close> calls the listeners of the event type one after the other, in
  registration order, with no handler around them: a listener that throws ends the
  emission and the exception leaves \<^verbatim>\<open>emit\<close>.\<close>

fun call_listeners ::
  "(string \<times> subscription) list \<Rightarrow> string \<Rightarrow> payload \<Rightarrow> (string \<times> string \<times> callback) list
     \<Rightarrow> (string \<times> string \<times> payload) list
     \<Rightarrow> error option \<times> (string \<times> string \<times> payload) list" where
  "call_listeners subs ev d [] tr = (None, tr)"
| "call_listeners subs ev d ((e, sid, cb) # ls) tr =
     (if map_of subs sid \<noteq> None
      then (case cb ev d of
              Some x \<Rightarrow> (Some x, tr @ [(sid, ev, d)])
            | None \<Rightarrow> call_listeners subs ev d ls (tr @ [(sid, ev, d)]))
      else call_listeners subs ev d ls tr)"

definition emit :: "string \<Rightarrow> payload \<Rightarrow> notification_manager \<Rightarrow> error option \<times> notification_manager" where
  "emit ev d nm =
     (case call_listeners (subscriptions nm) ev d
             (filter (\<lambda>l. fst l = ev) (listeners nm)) (delivered nm) of
        (r, tr) \<Rightarrow> (r, nm\<lparr>delivered := tr\<rparr>))"

definition contentPreview :: "string \<Rightarrow> string" where
  "contentPreview content = take 100 content @ (if length content > 100 then ''...'' else '''')"

definition notifyComponentUpdated ::
  "clock \<Rightarrow> string \<Rightarrow> string \<Rightarrow> notification_manager \<Rightarrow> error option \<times> notification_manager" where
  "notifyComponentUpdated clk componentName content =
     emit ''component-updated'' (ComponentPayload componentName (now_iso clk) (contentPreview content))"

definition notifyComponentCreated ::
  "clock \<Rightarrow> string \<Rightarrow> string \<Rightarrow> notification_manager \<Rightarrow> error option \<times> notification_manager" where
  "notifyComponentCreated clk componentName content =
     emit ''component-created'' (ComponentPayload componentName (now_iso clk) (contentPreview content))"

definition notifyComponentHistoryAdded ::
  "clock \<Rightarrow> string \<Rightarrow> string \<Rightarrow> notification_manager \<Rightarrow> error option \<times> notification_manager" where
  "notifyComponentHistoryAdded clk componentName versionId =
     emit ''component-history-added'' (HistoryPayload componentName versionId (now_iso clk))"

definition notifyMemoryBankInitialized ::
  "clock \<Rightarrow> notification_manager \<Rightarrow> error option \<times> notification_manager" where
  "notifyMemoryBankInitialized clk = emit ''memory-bank-initialized'' (TimestampPayload (now_iso clk))"

definition notifyCacheCleared ::
  "clock \<Rightarrow> notification_manager \<Rightarrow> error option \<times> notification_manager" where
  "notifyCacheCleared clk = emit ''cache-cleared'' (TimestampPayload (now_iso clk))"

section \<open>State of the store and its environment\<close>

text \<open>The options of the manager (\<^verbatim>\<open>this.options\<close>, \<^verbatim>\<open>this.cache.enabled\<close>), fixed at
  construction, together with the behaviour of the backend: \<open>faulty op\<close> holds when the
  file-system call or SQL statement \<open>op\<close> fails. \<open>DbInitialize\<close> stands for the three steps of
  \<^verbatim>\<open>initialize\<close> of the adapter together (the directory of the database file is ensured,
  the file is opened, the tables are created); when it is faulty, \<open>open_error\<close> tells
  whether the step that fails is the opening of the file.\<close>

record env =
  maxHistoryVersions :: int
  useDatabase :: bool
  enableRealTimeUpdates :: bool
  cache_enabled :: bool
  faulty :: "io_op \<Rightarrow> bool"
  open_error :: bool

text \<open>A row of \<^verbatim>\<open>components\<close> as \<^verbatim>\<open>getComponent\<close> of the adapter resolves it, and a row of
  \<^verbatim>\<open>component_history\<close>.\<close>

record component_row =
  comp_name :: string
  comp_content :: string
  updated_at :: nat

record history_row =
  row_id :: nat
  component_id :: string
  content :: string
  created_at :: nat

text \<open>\<open>files\<close>: the component files under \<^verbatim>\<open>basePath\<close>, by file name. \<open>history_dirs\<close>: the
  directories under \<^verbatim>\<open>historyPath\<close>, by component name, each a list of file name and
  content. \<open>components_table\<close> is keyed by the primary key \<^verbatim>\<open>id\<close>; \<open>last_history_id\<close> is the
  AUTOINCREMENT counter. \<open>io_trace\<close> lists the backend operations performed, \<open>console\<close> what
  \<^verbatim>\<open>console.error\<close> and \<^verbatim>\<open>console.warn\<close> were given. \<open>process_ended\<close> holds once an error
  that nothing handles has ended the Node process.\<close>

record world =
  files :: "string \<rightharpoonup> string"
  history_dirs :: "string \<rightharpoonup> (string \<times> string) list"
  db_initialized :: bool
  components_table :: "(string \<times> component_row) list"
  component_history :: "history_row list"
  last_history_id :: nat
  cache_data :: "(string \<times> string) list"
  cache_hits :: nat
  cache_misses :: nat
  notificationManager :: notification_manager
  io_trace :: "io_op list"
  console :: "(string \<times> error) list"
  process_ended :: bool

text \<open>An asynchronous method: it ends with a value or with an error, and leaves the world
  as changed up to that point. The error is thrown to the caller, unless the method has
  ended the process: then the call returns nothing, to nobody.\<close>

type_synonym 'a io = "world \<Rightarrow> (error + 'a) \<times> world"

definition io_return :: "'a \<Rightarrow> 'a io" where
  "io_return x w = (Inr x, w)"

definition io_throw :: "error \<Rightarrow> 'a io" where
  "io_throw e w = (Inl e, w)"

definition io_bind :: "'a io \<Rightarrow> ('a \<Rightarrow> 'b io) \<Rightarrow> 'b io" where
  "io_bind m f w = (case m w of (Inl e, w') \<Rightarrow> (Inl e, w') | (Inr x, w') \<Rightarrow> f x w')"

text \<open>\<^verbatim>\<open>try\<close> and \<^verbatim>\<open>catch\<close>: the handler receives what the block throws. An error that has
  ended the process within the block reaches no handler.\<close>

definition io_catch :: "'a io \<Rightarrow> (error \<Rightarrow> 'a io) \<Rightarrow> 'a io" where
  "io_catch m h w =
     (case m w of
        (Inl e, w') \<Rightarrow> if process_ended w' \<and> \<not> process_ended w then (Inl e, w') else h e w'
      | (Inr x, w') \<Rightarrow> (Inr x, w'))"

definition end_process :: "error \<Rightarrow> 'a io" where
  "end_process e w = (Inl e, w\<lparr>process_ended := True\<rparr>)"

definition io_when :: "bool \<Rightarrow> unit io \<Rightarrow> unit io" where
  "io_when b m = (if b then m else io_return ())"

definition console_error :: "string \<Rightarrow> error \<Rightarrow> unit io" where
  "console_error msg e w = (Inr (), w\<lparr>console := console w @ [(msg, e)]\<rparr>)"

definition perform :: "env \<Rightarrow> io_op \<Rightarrow> 'a io \<Rightarrow> 'a io" where
  "perform env op act w =
     (let w' = w\<lparr>io_trace := io_trace w @ [op]\<rparr>
      in if faulty env op then (Inl (IOError op), w') else act w')"

definition notify ::
  "(notification_manager \<Rightarrow> error option \<times> notification_manager) \<Rightarrow> unit io" where
  "notify f w =
     (case f (notificationManager w) of
        (None, nm) \<Rightarrow> (Inr (), w\<lparr>notificationManager := nm\<rparr>)
      | (Some e, nm) \<Rightarrow> (Inl e, w\<lparr>notificationManager := nm\<rparr>))"

definition cache_store :: "env \<Rightarrow> string \<Rightarrow> string \<Rightarrow> unit io" where
  "cache_store env componentName v w =
     (Inr (), if cache_enabled env then w\<lparr>cache_data := js_set (cache_data w) componentName v\<rparr> else w)"

section \<open>File system calls\<close>

text \<open>\<^verbatim>\<open>fs.existsSync\<close> never throws: it answers false when the check itself fails.\<close>

definition ensureDirSync_base :: "env \<Rightarrow> unit io" where
  "ensureDirSync_base env = perform env EnsureBaseDir (io_return ())"

definition existsSync_component :: "env \<Rightarrow> string \<Rightarrow> bool io" where
  "existsSync_component env f w =
     (Inr (\<not> faulty env (ExistsComponentFile f) \<and> files w f \<noteq> None),
      w\<lparr>io_trace := io_trace w @ [ExistsComponentFile f]\<rparr>)"

definition readFile_component :: "env \<Rightarrow> string \<Rightarrow> string io" where
  "readFile_component env f =
     perform env (ReadComponentFile f)
       (\<lambda>w. case files w f of
               None \<Rightarrow> (Inl (IOError (ReadComponentFile f)), w)
             | Some c \<Rightarrow> (Inr c, w))"

definition writeFile_component :: "env \<Rightarrow> string \<Rightarrow> string \<Rightarrow> unit io" where
  "writeFile_component env f c =
     perform env (WriteComponentFile f) (\<lambda>w. (Inr (), w\<lparr>files := (files w)(f \<mapsto> c)\<rparr>))"

definition appendFile_component :: "env \<Rightarrow> string \<Rightarrow> string \<Rightarrow> unit io" where
  "appendFile_component env f c =
     perform env (AppendComponentFile f)
       (\<lambda>w. (Inr (), w\<lparr>files := (files w)(f \<mapsto> (case files w f of None \<Rightarrow> [] | Some old \<Rightarrow> old) @ c)\<rparr>))"

definition ensureDir_history :: "env \<Rightarrow> string \<Rightarrow> unit io" where
  "ensureDir_history env componentName =
     perform env (EnsureHistoryDir componentName)
       (\<lambda>w. (Inr (), case history_dirs w componentName of
                        None \<Rightarrow> w\<lparr>history_dirs := (history_dirs w)(componentName \<mapsto> [])\<rparr>
                      | Some d \<Rightarrow> w))"

definition existsSync_history_dir :: "env \<Rightarrow> string \<Rightarrow> bool io" where
  "existsSync_history_dir env componentName w =
     (Inr (\<not> faulty env (ExistsHistoryDir componentName) \<and> history_dirs w componentName \<noteq> None),
      w\<lparr>io_trace := io_trace w @ [ExistsHistoryDir componentName]\<rparr>)"

definition readdir_history :: "env \<Rightarrow> string \<Rightarrow> string list io" where
  "readdir_history env componentName =
     perform env (ReadHistoryDir componentName)
       (\<lambda>w. case history_dirs w componentName of
               None \<Rightarrow> (Inl (IOError (ReadHistoryDir componentName)), w)
             | Some d \<Rightarrow> (Inr (map fst d), w))"

definition existsSync_history_file :: "env \<Rightarrow> string \<Rightarrow> string \<Rightarrow> bool io" where
  "existsSync_history_file env componentName f w =
     (Inr (\<not> faulty env (ExistsHistoryFile componentName f) \<and>
           (case history_dirs w componentName of None \<Rightarrow> False | Some d \<Rightarrow> map_of d f \<noteq> None)),
      w\<lparr>io_trace := io_trace w @ [ExistsHistoryFile componentName f]\<rparr>)"

definition readFile_history :: "env \<Rightarrow> string \<Rightarrow> string \<Rightarrow> string io" where
  "readFile_history env componentName f =
     perform env (ReadHistoryFile componentName f)
       (\<lambda>w. case history_dirs w componentName of
               None \<Rightarrow> (Inl (IOError (ReadHistoryFile componentName f)), w)
             | Some d \<Rightarrow> (case map_of d f of
                            None \<Rightarrow> (Inl (IOError (ReadHistoryFile componentName f)), w)
                          | Some c \<Rightarrow> (Inr c, w)))"

definition writeFile_history :: "env \<Rightarrow> string \<Rightarrow> string \<Rightarrow> string \<Rightarrow> unit io" where
  "writeFile_history env componentName f c =
     perform env (WriteHistoryFile componentName f)
       (\<lambda>w. case history_dirs w componentName of
               None \<Rightarrow> (Inl (IOError (WriteHistoryFile componentName f)), w)
             | Some d \<Rightarrow> (Inr (), w\<lparr>history_dirs := (history_dirs w)(componentName \<mapsto> AList.update f c d)\<rparr>))"

text \<open>\<^verbatim>\<open>fs.remove\<close> of fs-extra succeeds on a path that does not exist.\<close>

definition remove_history :: "env \<Rightarrow> string \<Rightarrow> string \<Rightarrow> unit io" where
  "remove_history env componentName f =
     perform env (RemoveHistoryFile componentName f)
       (\<lambda>w. (Inr (), case history_dirs w componentName of
                        None \<Rightarrow> w
                      | Some d \<Rightarrow> w\<lparr>history_dirs := (history_dirs w)(componentName \<mapsto> AList.delete f d)\<rparr>))"

text \<open>\<^verbatim>\<open>Array.prototype.slice\<close>: a negative index counts from the end.\<close>

definition js_slice_from :: "int \<Rightarrow> 'a list \<Rightarrow> 'a list" where
  "js_slice_from n xs = (if n < 0 then drop (nat (int (length xs) + n)) xs else drop (nat n) xs)"

definition js_slice_to :: "int \<Rightarrow> 'a list \<Rightarrow> 'a list" where
  "js_slice_to n xs = (if n < 0 then take (nat (int (length xs) + n)) xs else take (nat n) xs)"

section \<open>Database adapter\<close>

text \<open>A negative \<^verbatim>\<open>LIMIT\<close> is no limit in SQLite.\<close>

definition sql_limit :: "int \<Rightarrow> 'a list \<Rightarrow> 'a list" where
  "sql_limit n xs = (if n < 0 then xs else take (nat n) xs)"

text \<open>\<^verbatim>\<open>WHERE component_id = ? ORDER BY created_at DESC\<close>: the rows of the component by
  descending \<^verbatim>\<open>created_at\<close>; rows with one \<^verbatim>\<open>created_at\<close> come out in the order of their
  insertion (the sort is stable).\<close>

definition history_newest_first :: "string \<Rightarrow> history_row list \<Rightarrow> history_row list" where
  "history_newest_first componentId rows =
     sort_key (\<lambda>r. - int (created_at r)) (filter (\<lambda>r. component_id r = componentId) rows)"

text \<open>\<^verbatim>\<open>initialize\<close> wraps its three steps in \<^verbatim>\<open>try\<close>; the \<^verbatim>\<open>catch\<close> logs the error and throws
  it again. \<^verbatim>\<open>fs.ensureDir\<close> and \<^verbatim>\<open>_createTables\<close> are awaited, so their failure is thrown
  inside the \<^verbatim>\<open>try\<close>. \<^verbatim>\<open>new sqlite3.Database(path)\<close> is given no callback and the object no
  \<^verbatim>\<open>'error'\<close> listener: when the file cannot be opened, sqlite3 emits an \<^verbatim>\<open>'error'\<close> event
  that nothing handles, which ends the process while \<^verbatim>\<open>_createTables\<close> is pending.\<close>

definition db_initialize :: "env \<Rightarrow> bool io" where
  "db_initialize env =
     io_catch
       (\<lambda>w. if faulty env DbInitialize \<and> open_error env
            then end_process (IOError DbInitialize) (w\<lparr>io_trace := io_trace w @ [DbInitialize]\<rparr>)
            else perform env DbInitialize (\<lambda>w. (Inr True, w\<lparr>db_initialized := True\<rparr>)) w)
       (\<lambda>e. io_bind (console_error ''Failed to initialize database:'' e) (\<lambda>_. io_throw e))"

definition db_ensure_initialized :: "env \<Rightarrow> unit io" where
  "db_ensure_initialized env w =
     (if \<not> db_initialized w then io_bind (db_initialize env) (\<lambda>_. io_return ()) w
      else (Inr (), w))"

definition db_getComponent :: "env \<Rightarrow> string \<Rightarrow> component_row option io" where
  "db_getComponent env componentId =
     io_bind (db_ensure_initialized env) (\<lambda>_.
     perform env (DbSelectComponent componentId)
       (\<lambda>w. (Inr (map_of (components_table w) componentId), w)))"

definition db_saveComponentHistory :: "env \<Rightarrow> clock \<Rightarrow> string \<Rightarrow> string \<Rightarrow> bool io" where
  "db_saveComponentHistory env clk componentId c =
     io_bind (db_ensure_initialized env) (\<lambda>_.
     perform env (DbInsertHistory componentId)
       (\<lambda>w. (Inr True,
              w\<lparr>component_history := component_history w @
                   [\<lparr>row_id = last_history_id w + 1, component_id = componentId,
                     content = c, created_at = now_ms clk\<rparr>],
                last_history_id := last_history_id w + 1\<rparr>)))"

text \<open>The upsert keeps the \<^verbatim>\<open>name\<close> of an existing row. The new content is then written to
  the history table; a failure there is logged and the save still resolves to true.\<close>

definition db_saveComponent :: "env \<Rightarrow> clock \<Rightarrow> string \<Rightarrow> string \<Rightarrow> string \<Rightarrow> bool io" where
  "db_saveComponent env clk componentId componentName c =
     io_bind (db_ensure_initialized env) (\<lambda>_.
     io_bind (perform env (DbUpsertComponent componentId)
       (\<lambda>w. (Inr (),
              w\<lparr>components_table :=
                   AList.update componentId
                     (case map_of (components_table w) componentId of
                        None \<Rightarrow> \<lparr>comp_name = componentName, comp_content = c, updated_at = now_ms clk\<rparr>
                      | Some r \<Rightarrow> r\<lparr>comp_content := c, updated_at := now_ms clk\<rparr>)
                     (components_table w)\<rparr>))) (\<lambda>_.
     io_catch (db_saveComponentHistory env clk componentId c)
       (\<lambda>historyError. io_bind (console_error ''Failed to save component history:'' historyError)
          (\<lambda>_. io_return True))))"

text \<open>The limit of a history query: an integer, or the \<^verbatim>\<open>Infinity\<close> that
  \<^verbatim>\<open>getComponentHistory\<close> of the manager passes when its caller gives none. The adapter
  binds the limit to \<^verbatim>\<open>LIMIT ?\<close>; \<^verbatim>\<open>Infinity\<close> is bound as a floating-point value, which
  SQLite refuses as a limit (\<^verbatim>\<open>SQLITE_MISMATCH\<close>), so that the query fails.\<close>

datatype limit = Limit int | Infinity

definition db_getComponentHistory :: "env \<Rightarrow> string \<Rightarrow> limit \<Rightarrow> history_row list io" where
  "db_getComponentHistory env componentId lim =
     io_bind (db_ensure_initialized env) (\<lambda>_.
     perform env (DbSelectHistory componentId)
       (\<lambda>w. case lim of
               Limit n \<Rightarrow> (Inr (sql_limit n (history_newest_first componentId (component_history w))), w)
             | Infinity \<Rightarrow> (Inl DatatypeMismatch, w)))"

definition db_pruneComponentHistory :: "env \<Rightarrow> string \<Rightarrow> int \<Rightarrow> bool io" where
  "db_pruneComponentHistory env componentId keepCount =
     io_bind (db_ensure_initialized env) (\<lambda>_.
     io_bind (perform env (DbSelectKeepIds componentId)
                (\<lambda>w. (Inr (sql_limit keepCount (history_newest_first componentId (component_history w))), w)))
       (\<lambda>rows.
          if length rows = 0 then io_return True
          else (let keepIds = map row_id rows
                in perform env (DbDeleteHistory componentId)
                     (\<lambda>w. (Inr True,
                            w\<lparr>component_history :=
                                 filter (\<lambda>r. \<not> (component_id r = componentId \<and> row_id r \<notin> set keepIds))
                                   (component_history w)\<rparr>)))))"

definition db_getAllComponents :: "env \<Rightarrow> (string \<times> component_row) list io" where
  "db_getAllComponents env =
     io_bind (db_ensure_initialized env) (\<lambda>_.
     perform env DbSelectAllComponents (\<lambda>w. (Inr (components_table w), w)))"

section \<open>Memory bank manager\<close>

definition components :: "(string \<times> string) list" where
  "components =
     [(''activeContext'', ''activeContext.md''),
      (''productContext'', ''productContext.md''),
      (''decisionLog'', ''decisionLog.md''),
      (''progress'', ''progress.md''),
      (''systemPatterns'', ''systemPatterns.md'')]"

definition getDefaultActiveContext :: string where
  "getDefaultActiveContext =
     ''# Active Context\<newline>'' @
     ''\<newline>'' @
     ''## Current Focus\<newline>'' @
     ''*What the team is currently working on*\<newline>'' @
     ''\<newline>'' @
     ''## Recent Changes\<newline>'' @
     ''*Important changes made since the last update*\<newline>'' @
     ''\<newline>'' @
     ''## Open Questions\<newline>'' @
     ''*Questions that need resolution*\<newline>'' @
     ''\<newline>'' @
     ''## Next Steps\<newline>'' @
     ''*Immediate next actions*\<newline>''"

definition getDefaultProductContext :: string where
  "getDefaultProductContext =
     ''# Product Context\<newline>'' @
     ''\<newline>'' @
     ''## Project Overview\<newline>'' @
     ''*High-level description of the project*\<newline>'' @
     ''\<newline>'' @
     ''## Goals and Objectives\<newline>'' @
     ''*What the project aims to achieve*\<newline>'' @
     ''\<newline>'' @
     ''## Key Features\<newline>'' @
     ''*Main functionality of the system*\<newline>'' @
     ''\<newline>'' @
     ''## Architecture\<newline>'' @
     ''*Overall architecture of the system*\<newline>'' @
     ''\<newline>'' @
     ''## Constraints\<newline>'' @
     ''*Limitations and constraints*\<newline>''"

definition getDefaultDecisionLog :: string where
  "getDefaultDecisionLog =
     ''# Decision Log\<newline>'' @
     ''\<newline>'' @
     ''## Decisions\<newline>'' @
     ''*Record of important decisions made during the project*\<newline>'' @
     ''\<newline>'' @
     ''### YYYY-MM-DD: Decision Title\<newline>'' @
     ''**Context:** What led to this decision\<newline>'' @
     ''**Decision:** What was decided\<newline>'' @
     ''**Rationale:** Why this option was chosen\<newline>'' @
     ''**Consequences:** What this means for the project\<newline>''"

definition getDefaultProgress :: string where
  "getDefaultProgress =
     ''# Progress\<newline>'' @
     ''\<newline>'' @
     ''## Completed\<newline>'' @
     ''- [ ] Initialize project\<newline>'' @
     ''\<newline>'' @
     ''## In Progress\<newline>'' @
     ''- [ ] Set up development environment\<newline>'' @
     ''\<newline>'' @
     ''## Upcoming\<newline>'' @
     ''- [ ] Implement core features\<newline>''"

definition getDefaultSystemPatterns :: string where
  "getDefaultSystemPatterns =
     ''# System Patterns\<newline>'' @
     ''\<newline>'' @
     ''## Coding Patterns\<newline>'' @
     ''*Standardized approaches to code implementation*\<newline>'' @
     ''\<newline>'' @
     ''## Architectural Patterns\<newline>'' @
     ''*Recurring architectural solutions*\<newline>'' @
     ''\<newline>'' @
     ''## Testing Patterns\<newline>'' @
     ''*How testing is approached in this project*\<newline>''"

text \<open>The default content of a component is found by name: \<^verbatim>\<open>_getDefault\<close> followed by the
  component name with its first letter in upper case.\<close>

definition toUpperCase :: "char \<Rightarrow> char" where
  "toUpperCase c =
     (case map_of (zip ''abcdefghijklmnopqrstuvwxyz'' ''ABCDEFGHIJKLMNOPQRSTUVWXYZ'') c of
        Some u \<Rightarrow> u
      | None \<Rightarrow> c)"

definition defaultMethod :: "string \<Rightarrow> string" where
  "defaultMethod componentName =
     ''_getDefault'' @ map toUpperCase (take 1 componentName) @ drop 1 componentName"

definition default_methods :: "(string \<times> string) list" where
  "default_methods =
     [(''_getDefaultActiveContext'', getDefaultActiveContext),
      (''_getDefaultProductContext'', getDefaultProductContext),
      (''_getDefaultDecisionLog'', getDefaultDecisionLog),
      (''_getDefaultProgress'', getDefaultProgress),
      (''_getDefaultSystemPatterns'', getDefaultSystemPatterns)]"

subsection \<open>getComponent\<close>

definition getComponent_db :: "env \<Rightarrow> clock \<Rightarrow> string \<Rightarrow> js_value io" where
  "getComponent_db env clk componentName =
     io_catch
       (io_bind (db_getComponent env componentName) (\<lambda>dbComponent.
          case dbComponent of
            None \<Rightarrow>
              (case map_of default_methods (defaultMethod componentName) of
                 Some defaultContent \<Rightarrow>
                   io_bind (db_saveComponent env clk componentName componentName defaultContent) (\<lambda>_.
                   io_bind (cache_store env componentName defaultContent) (\<lambda>_.
                   io_return (Own defaultContent)))
               | None \<Rightarrow>
                   io_bind (db_saveComponent env clk componentName componentName []) (\<lambda>_.
                   io_bind (cache_store env componentName []) (\<lambda>_.
                   io_return (Own []))))
          | Some row \<Rightarrow>
              io_bind (cache_store env componentName (comp_content row)) (\<lambda>_.
              io_return (Own (comp_content row)))))
       (\<lambda>e. io_bind (console_error (''Failed to read component '' @ componentName @ '' from database:'') e)
          (\<lambda>_. io_throw e))"

text \<open>\<^verbatim>\<open>path.join\<close> throws a TypeError, before the \<^verbatim>\<open>try\<close>, when the entry of
  \<^verbatim>\<open>this.components\<close> is not a string.\<close>

definition getComponent_file :: "env \<Rightarrow> string \<Rightarrow> js_value io" where
  "getComponent_file env componentName =
     (case js_get components componentName of
        Own fileName \<Rightarrow>
          io_catch
            (io_bind (existsSync_component env fileName) (\<lambda>ex.
               if \<not> ex then
                 (case map_of default_methods (defaultMethod componentName) of
                    Some defaultContent \<Rightarrow>
                      io_bind (writeFile_component env fileName defaultContent) (\<lambda>_.
                      io_bind (cache_store env componentName defaultContent) (\<lambda>_.
                      io_return (Own defaultContent)))
                  | None \<Rightarrow>
                      io_bind (writeFile_component env fileName []) (\<lambda>_.
                      io_bind (cache_store env componentName []) (\<lambda>_.
                      io_return (Own []))))
               else
                 io_bind (readFile_component env fileName) (\<lambda>c.
                 io_bind (\<lambda>w. (Inr (), if cache_enabled env
                                        then w\<lparr>cache_data := js_set (cache_data w) componentName c\<rparr>
                                        else w\<lparr>cache_misses := cache_misses w + 1\<rparr>)) (\<lambda>_.
                 io_return (Own c)))))
            (\<lambda>e. io_bind (console_error (''Failed to read component '' @ componentName @ '' from file system:'') e)
               (\<lambda>_. io_throw e))
      | _ \<Rightarrow> io_throw TypeError)"

definition getComponent :: "env \<Rightarrow> clock \<Rightarrow> string \<Rightarrow> js_value io" where
  "getComponent env clk componentName =
     (if \<not> truthy (js_get components componentName) then io_throw (UnknownComponent componentName)
      else (\<lambda>w.
        if cache_enabled env \<and> truthy (js_get (cache_data w) componentName)
        then (Inr (js_get (cache_data w) componentName), w\<lparr>cache_hits := cache_hits w + 1\<rparr>)
        else if useDatabase env then getComponent_db env clk componentName w
        else getComponent_file env componentName w))"

subsection \<open>History\<close>

definition sanitize :: "string \<Rightarrow> string" where
  "sanitize s = map (\<lambda>c. if c = CHR '':'' \<or> c = CHR ''.'' then CHR ''-'' else c) s"

fun remove_files :: "env \<Rightarrow> string \<Rightarrow> string list \<Rightarrow> unit io" where
  "remove_files env componentName [] = io_return ()"
| "remove_files env componentName (f # fs) =
     io_bind (remove_history env componentName f) (\<lambda>_. remove_files env componentName fs)"

definition pruneComponentHistory :: "env \<Rightarrow> string \<Rightarrow> unit io" where
  "pruneComponentHistory env componentName =
     (if useDatabase env then io_return ()
      else
        io_catch
          (io_bind (readdir_history env componentName) (\<lambda>files.
             remove_files env componentName
               (js_slice_from (maxHistoryVersions env) (rev (sort files)))))
          (\<lambda>e. console_error (''Failed to prune history for component '' @ componentName @ '':'') e))"

definition saveToHistory :: "env \<Rightarrow> clock \<Rightarrow> string \<Rightarrow> string \<Rightarrow> bool io" where
  "saveToHistory env clk componentName c =
     (if useDatabase env then
        io_catch
          (io_bind (db_saveComponentHistory env clk componentName c) (\<lambda>_.
           io_bind (db_getComponentHistory env componentName (Limit 1)) (\<lambda>history.
           let versionId = (case history of [] \<Rightarrow> None | h # _ \<Rightarrow> Some (dec (row_id h))) in
           io_bind (db_pruneComponentHistory env componentName (maxHistoryVersions env)) (\<lambda>_.
           io_bind (case versionId of
                      None \<Rightarrow> io_return ()
                    | Some v \<Rightarrow> io_when (enableRealTimeUpdates env)
                                 (notify (notifyComponentHistoryAdded clk componentName v))) (\<lambda>_.
           io_return True)))))
          (\<lambda>e. io_bind (console_error (''Failed to save history for component '' @ componentName @ '' to database:'') e)
             (\<lambda>_. io_return False))
      else
        io_catch
          (io_bind (ensureDir_history env componentName) (\<lambda>_.
           let timestamp = sanitize (now_iso clk) in
           io_bind (writeFile_history env componentName (timestamp @ ''.md'') c) (\<lambda>_.
           io_bind (pruneComponentHistory env componentName) (\<lambda>_.
           io_bind (io_when (enableRealTimeUpdates env)
                      (notify (notifyComponentHistoryAdded clk componentName timestamp))) (\<lambda>_.
           io_return True)))))
          (\<lambda>e. io_bind (console_error (''Failed to save history for component '' @ componentName @ '' to file system:'') e)
             (\<lambda>_. io_return False)))"

subsection \<open>updateComponent and appendToComponent\<close>

definition updateComponent :: "env \<Rightarrow> clock \<Rightarrow> string \<Rightarrow> string \<Rightarrow> bool io" where
  "updateComponent env clk componentName c =
     (if \<not> truthy (js_get components componentName) then io_throw (UnknownComponent componentName)
      else if useDatabase env then
        io_catch
          (io_bind (db_getComponent env componentName) (\<lambda>existingComponent.
           let isNewComponent = (case existingComponent of None \<Rightarrow> True | Some r \<Rightarrow> False) in
           io_bind (db_saveComponent env clk componentName componentName c) (\<lambda>_.
           io_bind (cache_store env componentName c) (\<lambda>_.
           io_bind (io_when (enableRealTimeUpdates env)
                      (if isNewComponent then notify (notifyComponentCreated clk componentName c)
                       else notify (notifyComponentUpdated clk componentName c))) (\<lambda>_.
           io_return True)))))
          (\<lambda>e. io_bind (console_error (''Failed to update component '' @ componentName @ '' in database:'') e)
             (\<lambda>_. io_throw e))
      else
        (case js_get components componentName of
           Own fileName \<Rightarrow>
             io_catch
               (io_bind (ensureDirSync_base env) (\<lambda>_.
                io_bind (existsSync_component env fileName) (\<lambda>ex.
                let isNewComponent = \<not> ex in
                io_bind (if \<not> isNewComponent then
                           io_bind (readFile_component env fileName) (\<lambda>currentContent.
                             if currentContent \<noteq> c
                             then io_bind (saveToHistory env clk componentName currentContent)
                                    (\<lambda>_. io_return ())
                             else io_return ())
                         else io_return ()) (\<lambda>_.
                io_bind (writeFile_component env fileName c) (\<lambda>_.
                io_bind (cache_store env componentName c) (\<lambda>_.
                io_bind (io_when (enableRealTimeUpdates env)
                           (if isNewComponent then notify (notifyComponentCreated clk componentName c)
                            else notify (notifyComponentUpdated clk componentName c))) (\<lambda>_.
                io_return True)))))))
               (\<lambda>e. io_bind (console_error (''Failed to update component '' @ componentName @ '' in file system:'') e)
                  (\<lambda>_. io_throw e))
         | _ \<Rightarrow> io_throw TypeError))"

text \<open>In the file branch the cache entry is rebuilt from the cache itself
  (\<^verbatim>\<open>this.cache.data[componentName] || ''\<close>); the branch is reached only for a component
  name that has a file name, so the entry read is an own one or missing.\<close>

definition appendToComponent :: "env \<Rightarrow> clock \<Rightarrow> string \<Rightarrow> string \<Rightarrow> bool io" where
  "appendToComponent env clk componentName c =
     (if \<not> truthy (js_get components componentName) then io_throw (UnknownComponent componentName)
      else if useDatabase env then
        io_catch
          (io_bind (db_getComponent env componentName) (\<lambda>dbComponent.
           io_bind (case dbComponent of
                      None \<Rightarrow> db_saveComponent env clk componentName componentName c
                    | Some row \<Rightarrow>
                        (let newContent = comp_content row @ c
                         in db_saveComponent env clk componentName componentName newContent)) (\<lambda>_.
           io_bind (let currentContent = (case dbComponent of None \<Rightarrow> [] | Some row \<Rightarrow> comp_content row)
                    in cache_store env componentName (currentContent @ c)) (\<lambda>_.
           io_return True))))
          (\<lambda>e. io_bind (console_error (''Failed to append to component '' @ componentName @ '' in database:'') e)
             (\<lambda>_. io_throw e))
      else
        (case js_get components componentName of
           Own fileName \<Rightarrow>
             io_catch
               (io_bind (ensureDirSync_base env) (\<lambda>_.
                io_bind (existsSync_component env fileName) (\<lambda>ex.
                io_bind (if ex then
                           io_bind (readFile_component env fileName) (\<lambda>currentContent.
                           io_bind (saveToHistory env clk componentName currentContent)
                             (\<lambda>_. io_return ()))
                         else io_return ()) (\<lambda>_.
                io_bind (existsSync_component env fileName) (\<lambda>ex2.
                io_bind (if \<not> ex2 then writeFile_component env fileName [] else io_return ()) (\<lambda>_.
                io_bind (appendFile_component env fileName c) (\<lambda>_.
                io_bind (\<lambda>w. (Inr (),
                              if cache_enabled env
                              then (let currentContent =
                                          (case js_get (cache_data w) componentName of
                                             Own v \<Rightarrow> v
                                           | _ \<Rightarrow> [])
                                    in w\<lparr>cache_data := js_set (cache_data w) componentName (currentContent @ c)\<rparr>)
                              else w)) (\<lambda>_.
                io_return True))))))))
               (\<lambda>e. io_bind (console_error (''Failed to append to component '' @ componentName @ '' in file system:'') e)
                  (\<lambda>_. io_throw e))
         | _ \<Rightarrow> io_throw TypeError))"

subsection \<open>getAllComponents\<close>

fun collect_db ::
  "env \<Rightarrow> (string \<times> component_row) list \<Rightarrow> (string \<times> js_value) list \<Rightarrow> (string \<times> js_value) list io" where
  "collect_db env [] result = io_return result"
| "collect_db env ((cid, row) # rows) result =
     io_bind (cache_store env cid (comp_content row)) (\<lambda>_.
     collect_db env rows (js_set result cid (Own (comp_content row))))"

definition console_warn :: "string \<Rightarrow> error \<Rightarrow> unit io" where
  "console_warn msg e = console_error msg e"

fun collect_files ::
  "env \<Rightarrow> clock \<Rightarrow> string list \<Rightarrow> (string \<times> js_value) list \<Rightarrow> (string \<times> js_value) list io" where
  "collect_files env clk [] result = io_return result"
| "collect_files env clk (componentName # names) result =
     io_bind (io_catch (getComponent env clk componentName)
                (\<lambda>e. io_bind (console_warn (''Failed to get component '' @ componentName @ '':'') e)
                   (\<lambda>_. io_return (Own [])))) (\<lambda>v.
     collect_files env clk names (js_set result componentName v))"

definition getAllComponents :: "env \<Rightarrow> clock \<Rightarrow> (string \<times> js_value) list io" where
  "getAllComponents env clk =
     (if useDatabase env then
        io_catch
          (io_bind (db_getAllComponents env) (\<lambda>rows. collect_db env rows []))
          (\<lambda>e. io_bind (console_error ''Failed to get all components from database:'' e)
             (\<lambda>_. io_return []))
      else collect_files env clk (map fst components) [])"

subsection \<open>getComponentHistory and getComponentVersion\<close>

text \<open>What \<^verbatim>\<open>getComponentHistory\<close> resolves to: the bare contents, or the versions in the shape
  of the backend. A file version carries the string handed to \<^verbatim>\<open>new Date\<close> and the
  content.\<close>

datatype history_result =
    Contents "string list"
  | FileVersions "(string \<times> string) list"
  | DbVersions "history_row list"

fun remove_first_md :: "string \<Rightarrow> string" where
  "remove_first_md [] = []"
| "remove_first_md (c # cs) =
     (if take 3 (c # cs) = ''.md'' then drop 3 (c # cs) else c # remove_first_md cs)"

definition version_timestamp :: "string \<Rightarrow> string" where
  "version_timestamp file =
     take 19 (map (\<lambda>c. if c = CHR ''-'' then CHR '':'' else c) (remove_first_md file))"

fun read_versions :: "env \<Rightarrow> string \<Rightarrow> string list \<Rightarrow> (string \<times> string) list io" where
  "read_versions env componentName [] = io_return []"
| "read_versions env componentName (file # others) =
     io_bind (readFile_history env componentName file) (\<lambda>c.
     io_bind (read_versions env componentName others) (\<lambda>rest.
     io_return ((version_timestamp file, c) # rest)))"

definition getComponentHistory :: "env \<Rightarrow> string \<Rightarrow> limit \<Rightarrow> bool \<Rightarrow> history_result io" where
  "getComponentHistory env componentName lim contentOnly =
     (if \<not> truthy (js_get components componentName) then io_throw (UnknownComponent componentName)
      else if useDatabase env then
        io_catch
          (io_bind (db_getComponentHistory env componentName lim) (\<lambda>history.
             if contentOnly then io_return (Contents (map content history))
             else io_return (DbVersions history)))
          (\<lambda>e. io_bind (console_error (''Failed to get history for component '' @ componentName @ '' from database:'') e)
             (\<lambda>_. io_throw e))
      else
        io_catch
          (io_bind (existsSync_history_dir env componentName) (\<lambda>ex.
             if \<not> ex then io_return (if contentOnly then Contents [] else FileVersions [])
             else
               io_bind (readdir_history env componentName) (\<lambda>files.
               let files = rev (sort files);
                   files = (case lim of Limit n \<Rightarrow> js_slice_to n files | Infinity \<Rightarrow> files) in
               io_bind (read_versions env componentName files) (\<lambda>history.
               io_return (if contentOnly then Contents (map snd history) else FileVersions history)))))
          (\<lambda>e. io_bind (console_error (''Failed to get history for component '' @ componentName @ '' from file system:'') e)
             (\<lambda>_. io_throw e)))"

text \<open>In database mode the adapter is asked for the history with no options, so with its
  default limit of 10. \<open>toISOString\<close> is \<^verbatim>\<open>Date.prototype.toISOString\<close> on the stored
  \<^verbatim>\<open>created_at\<close>.\<close>

definition getComponentVersion :: "(nat \<Rightarrow> string) \<Rightarrow> env \<Rightarrow> string \<Rightarrow> string \<Rightarrow> string io" where
  "getComponentVersion toISOString env componentName versionId =
     (if \<not> truthy (js_get components componentName) then io_throw (UnknownComponent componentName)
      else if useDatabase env then
        io_catch
          (io_bind (db_getComponentHistory env componentName (Limit 10)) (\<lambda>history.
             case find (\<lambda>v. dec (row_id v) = versionId \<or> toISOString (created_at v) = versionId) history of
               None \<Rightarrow> io_throw (VersionNotFound versionId componentName)
             | Some version \<Rightarrow> io_return (content version)))
          (\<lambda>e. io_bind (console_error (''Failed to get version '' @ versionId @ '' for component '' @ componentName @ '' from database:'') e)
             (\<lambda>_. io_throw e))
      else
        (let formattedVersionId = sanitize versionId in
         io_catch
           (io_bind (existsSync_history_file env componentName (formattedVersionId @ ''.md'')) (\<lambda>ex.
              if \<not> ex then io_throw (VersionNotFound versionId componentName)
              else readFile_history env componentName (formattedVersionId @ ''.md'')))
           (\<lambda>e. io_bind (console_error (''Failed to get version '' @ versionId @ '' for component '' @ componentName @ '' from file system:'') e)
              (\<lambda>_. io_throw e))))"

subsection \<open>isInitialized and initialize\<close>

definition requiredComponents :: "string list" where
  "requiredComponents = [''activeContext'', ''productContext'', ''decisionLog'', ''progress'']"

fun all_in_database :: "env \<Rightarrow> string list \<Rightarrow> bool io" where
  "all_in_database env [] = io_return True"
| "all_in_database env (component # rest) =
     io_bind (db_getComponent env component) (\<lambda>dbComponent.
       case dbComponent of
         None \<Rightarrow> io_return False
       | Some row \<Rightarrow> all_in_database env rest)"

fun all_files_exist :: "env \<Rightarrow> string list \<Rightarrow> bool io" where
  "all_files_exist env [] = io_return True"
| "all_files_exist env (component # rest) =
     (case js_get components component of
        Own fileName \<Rightarrow>
          io_bind (existsSync_component env fileName) (\<lambda>ex.
            if \<not> ex then io_return False else all_files_exist env rest)
      | _ \<Rightarrow> io_throw TypeError)"

definition isInitialized :: "env \<Rightarrow> bool io" where
  "isInitialized env =
     (if useDatabase env then
        io_catch
          (io_bind (\<lambda>w. if \<not> db_initialized w
                         then io_bind (db_initialize env) (\<lambda>_. io_return ()) w
                         else (Inr (), w)) (\<lambda>_.
           all_in_database env requiredComponents))
          (\<lambda>e. io_bind (console_error ''Error checking Memory Bank initialization in database:'' e)
             (\<lambda>_. io_return False))
      else
        io_catch
          (all_files_exist env requiredComponents)
          (\<lambda>e. io_bind (console_error ''Error checking Memory Bank initialization in file system:'' e)
             (\<lambda>_. io_return False)))"

definition initialize :: "env \<Rightarrow> clock \<Rightarrow> bool io" where
  "initialize env clk =
     io_catch
       (io_bind (updateComponent env clk ''activeContext'' getDefaultActiveContext) (\<lambda>_.
        io_bind (updateComponent env clk ''productContext'' getDefaultProductContext) (\<lambda>_.
        io_bind (updateComponent env clk ''decisionLog'' getDefaultDecisionLog) (\<lambda>_.
        io_bind (updateComponent env clk ''progress'' getDefaultProgress) (\<lambda>_.
        io_bind (io_when (enableRealTimeUpdates env) (notify (notifyMemoryBankInitialized clk))) (\<lambda>_.
        io_return True))))))
       (\<lambda>e. io_bind (console_error ''Failed to initialize Memory Bank:'' e) (\<lambda>_. io_throw e))"

section \<open>Derived notions and concrete scenarios\<close>

text \<open>What the pruning loop of the file backend leaves of a history directory: the files
  beyond the first \<open>m\<close> of the descending name order are removed one after the other.\<close>

definition prune_dir :: "int \<Rightarrow> (string \<times> string) list \<Rightarrow> (string \<times> string) list" where
  "prune_dir m d = fold AList.delete (js_slice_from m (rev (sort (map fst d)))) d"

text \<open>A backend on which no operation fails, a store right after construction on an empty
  directory or database, and a clock reading.\<close>

definition no_faults :: "io_op \<Rightarrow> bool" where
  "no_faults op = False"

definition fresh_world :: world where
  "fresh_world =
     \<lparr>files = Map.empty, history_dirs = Map.empty, db_initialized = False,
      components_table = [], component_history = [], last_history_id = 0,
      cache_data = [], cache_hits = 0, cache_misses = 0,
      notificationManager = new_notification_manager, io_trace = [], console = [],
      process_ended = False\<rparr>"

definition at :: "nat \<Rightarrow> string \<Rightarrow> clock" where
  "at ms stamp = \<lparr>now_ms = ms, now_iso = stamp\<rparr>"

definition t1 :: clock where "t1 = at 1704067200001 ''2024-01-01T00:00:00.001Z''"
definition t2 :: clock where "t2 = at 1704067200002 ''2024-01-01T00:00:00.002Z''"
definition t3 :: clock where "t3 = at 1704067200003 ''2024-01-01T00:00:00.003Z''"
definition t4 :: clock where "t4 = at 1704067200004 ''2024-01-01T00:00:00.004Z''"

text \<open>Options: the file backend with the default retention of 10 and with a retention of
  2, the file backend with the cache enabled, and the database backend with a retention
  of 2.\<close>

definition file_env :: env where
  "file_env = \<lparr>maxHistoryVersions = 10, useDatabase = False, enableRealTimeUpdates = True,
               cache_enabled = False, faulty = no_faults, open_error = False\<rparr>"

definition file_env2 :: env where
  "file_env2 = file_env\<lparr>maxHistoryVersions := 2\<rparr>"

definition cached_file_env :: env where
  "cached_file_env = file_env\<lparr>cache_enabled := True\<rparr>"

definition db_env :: env where
  "db_env = \<lparr>maxHistoryVersions = 2, useDatabase = True, enableRealTimeUpdates = True,
             cache_enabled = False, faulty = no_faults, open_error = False\<rparr>"


definition no_open_env :: env where
  "no_open_env = db_env\<lparr>faulty := (\<lambda>op. op = DbInitialize), open_error := True\<rparr>"



text \<open>Two subscribers to component updates: the first one's callback throws.\<close>

definition throwing_callback :: callback where
  "throwing_callback ev d = Some (CallbackError ''subscriber failed'')"

definition quiet_callback :: callback where
  "quiet_callback ev d = None"

definition two_subscribers :: notification_manager where
  "two_subscribers =
     snd (subscribe 2 ''second'' (Some [''component-updated'']) quiet_callback
       (snd (subscribe 1 ''first'' (Some [''component-updated'']) throwing_callback
          new_notification_manager)))"

text \<open>A store after \<^verbatim>\<open>initialize()\<close> on each backend, and three updates of the progress
  component at later clock readings.\<close>

definition file_store0 :: world where
  "file_store0 = snd (initialize file_env t1 fresh_world)"

definition db_store0 :: world where
  "db_store0 = snd (initialize db_env t1 fresh_world)"

definition three_updates :: "env \<Rightarrow> world \<Rightarrow> string \<Rightarrow> string \<Rightarrow> string \<Rightarrow> world" where
  "three_updates env w v1 v2 v3 =
     snd (updateComponent env t4 ''progress'' v3
       (snd (updateComponent env t3 ''progress'' v2
         (snd (updateComponent env t2 ''progress'' v1 w)))))"

text \<open>A file store in which only the progress component exists, with content \<open>p\<close> and no
  history.\<close>

definition stored :: "string \<Rightarrow> world" where
  "stored p = fresh_world\<lparr>files := [''progress.md'' \<mapsto> p]\<rparr>"

text \<open>A database holding eleven history versions of the progress component, and a stand-in
  for \<^verbatim>\<open>Date.prototype.toISOString\<close> (whose result is never a decimal numeral).\<close>

definition version :: "nat \<Rightarrow> history_row" where
  "version i = \<lparr>row_id = i, component_id = ''progress'', content = ''v'' @ dec i, created_at = 1000 + i\<rparr>"

definition eleven_versions :: world where
  "eleven_versions =
     fresh_world\<lparr>db_initialized := True,
       component_history := [version 1, version 2, version 3, version 4, version 5, version 6,
                             version 7, version 8, version 9, version 10, version 11],
       last_history_id := 11\<rparr>"

definition toISOString_stub :: "nat \<Rightarrow> string" where
  "toISOString_stub t = ''T'' @ dec t"

text \<open>The same file store with one subscriber to every event type.\<close>

definition watched :: world where
  "watched =
     (stored ''p'')\<lparr>notificationManager :=
        snd (subscribe 1 ''ui'' None quiet_callback new_notification_manager)\<rparr>"




text \<open>The database file can be opened: \<^verbatim>\<open>initialize\<close> of the adapter succeeds, or fails in a
  step whose error it throws.\<close>

definition database_opens :: "env \<Rightarrow> bool" where
  "database_opens env = (\<not> (faulty env DbInitialize \<and> open_error env))"


section \<open>Auxiliary facts\<close>

lemmas io_defs = io_return_def io_throw_def io_bind_def io_catch_def end_process_def io_when_def
  console_error_def perform_def notify_def cache_store_def

lemmas fs_defs = ensureDirSync_base_def existsSync_component_def readFile_component_def
  writeFile_component_def appendFile_component_def ensureDir_history_def
  existsSync_history_dir_def readdir_history_def existsSync_history_file_def
  readFile_history_def writeFile_history_def remove_history_def

lemmas db_defs = db_initialize_def db_ensure_initialized_def db_getComponent_def
  db_saveComponentHistory_def db_saveComponent_def db_getComponentHistory_def
  db_pruneComponentHistory_def db_getAllComponents_def

lemmas nm_defs = emit_def notifyComponentUpdated_def notifyComponentCreated_def
  notifyComponentHistoryAdded_def notifyMemoryBankInitialized_def new_notification_manager_def

lemmas scenario_defs = no_faults_def fresh_world_def at_def t1_def t2_def t3_def t4_def
  file_env_def db_env_def

lemma dec_small:
  "dec (Suc 0) = ''1''" "dec 1 = ''1''" "dec 2 = ''2''" "dec 3 = ''3''" "dec 7 = ''7''" "dec 11 = ''11''"
  by (simp_all add: dec.simps digit_def)

lemma known_name:
  assumes "map_of components n = Some f"
  shows "js_get components n = Own f" "f \<noteq> []" "n \<noteq> ''__proto__''" "n \<notin> set object_prototype"
  using assms by (auto simp add: js_get_def components_def object_prototype_def split: if_splits)

lemma call_listeners_prefix:
  "call_listeners subs ev d ls tr =
     (case dropWhile (\<lambda>l. snd (snd l) ev d = None) (filter (\<lambda>l. map_of subs (fst (snd l)) \<noteq> None) ls) of
        [] \<Rightarrow> None
      | l # _ \<Rightarrow> snd (snd l) ev d,
      tr @ map (\<lambda>l. (fst (snd l), ev, d))
             (takeWhile (\<lambda>l. snd (snd l) ev d = None) (filter (\<lambda>l. map_of subs (fst (snd l)) \<noteq> None) ls)
              @ take 1 (dropWhile (\<lambda>l. snd (snd l) ev d = None) (filter (\<lambda>l. map_of subs (fst (snd l)) \<noteq> None) ls))))"
proof (induction ls arbitrary: tr)
  case Nil
  show ?case by simp
next
  case (Cons l ls)
  obtain e sid cb where l: "l = (e, sid, cb)" by (cases l)
  show ?case
  proof (cases "map_of subs sid \<noteq> None")
    case False
    then show ?thesis using Cons.IH [of tr] by (simp add: l)
  next
    case True
    show ?thesis
    proof (cases "cb ev d")
      case None
      then show ?thesis using True Cons.IH [of "tr @ [(sid, ev, d)]"] by (simp add: l)
    next
      case (Some x)
      then show ?thesis using True by (simp add: l)
    qed
  qed
qed

lemma notify_eq:
  "notify g w =
     (case fst (g (notificationManager w)) of None \<Rightarrow> Inr () | Some e \<Rightarrow> Inl e,
      w\<lparr>notificationManager := snd (g (notificationManager w))\<rparr>)"
  by (simp add: notify_def split: prod.splits option.splits)

lemmas io_defs2 = io_return_def io_throw_def io_bind_def io_catch_def end_process_def io_when_def
  console_error_def perform_def notify_eq cache_store_def

lemma catch_total:
  assumes "process_ended (snd (m w)) = process_ended w"
  shows "\<exists>b. fst (io_catch m (\<lambda>e. io_bind (console_error msg e) (\<lambda>_. io_return x)) w) = Inr b"
  using assms
  by (cases "m w") (auto simp add: io_catch_def io_bind_def io_return_def console_error_def split: sum.splits)

text \<open>Only the opening of the database can end the process: the calls of the file backend
  and the notifications leave \<open>process_ended\<close> as it is, whatever fails.\<close>

lemma kp_bind:
  assumes "\<And>w. process_ended (snd (m w)) = process_ended w"
    "\<And>x w. process_ended (snd (k x w)) = process_ended w"
  shows "process_ended (snd (io_bind m k w)) = process_ended w"
proof (cases "m w")
  case (Pair r w')
  with assms(1) [of w] have "process_ended w' = process_ended w" by simp
  with Pair assms(2) show ?thesis
    by (cases r) (simp_all add: io_bind_def)
qed

lemma kp_catch:
  assumes "\<And>w. process_ended (snd (m w)) = process_ended w"
    "\<And>x w. process_ended (snd (h x w)) = process_ended w"
  shows "process_ended (snd (io_catch m h w)) = process_ended w"
proof (cases "m w")
  case (Pair r w')
  with assms(1) [of w] have "process_ended w' = process_ended w" by simp
  with Pair assms(2) show ?thesis
    by (cases r) (simp_all add: io_catch_def)
qed


lemma kp_basic:
  "process_ended (snd (io_return x w)) = process_ended w"
  "process_ended (snd (io_throw e w)) = process_ended w"
  "process_ended (snd (console_error msg e w)) = process_ended w"
  "process_ended (snd (notify g w)) = process_ended w"
  "process_ended (snd (cache_store env n v w)) = process_ended w"
  by (simp_all add: io_return_def io_throw_def console_error_def notify_eq cache_store_def)

lemma kp_when:
  assumes "\<And>w. process_ended (snd (m w)) = process_ended w"
  shows "process_ended (snd (io_when b m w)) = process_ended w"
  using assms by (simp add: io_when_def io_return_def)

lemma kp_file_calls:
  "process_ended (snd (ensureDirSync_base env w)) = process_ended w"
  "process_ended (snd (existsSync_component env f w)) = process_ended w"
  "process_ended (snd (readFile_component env f w)) = process_ended w"
  "process_ended (snd (writeFile_component env f c w)) = process_ended w"
  "process_ended (snd (appendFile_component env f c w)) = process_ended w"
  "process_ended (snd (remove_history env n f w)) = process_ended w"
  "process_ended (snd (ensureDir_history env n w)) = process_ended w"
  "process_ended (snd (writeFile_history env n f c w)) = process_ended w"
  "process_ended (snd (readdir_history env n w)) = process_ended w"
  "process_ended (snd (existsSync_history_dir env n w)) = process_ended w"
  "process_ended (snd (existsSync_history_file env n f w)) = process_ended w"
  "process_ended (snd (readFile_history env n f w)) = process_ended w"
  by (simp_all add: fs_defs perform_def io_return_def Let_def split: option.split)

lemma remove_files_process: "process_ended (snd (remove_files env n fs w)) = process_ended w"
proof (induction fs arbitrary: w)
  case Nil
  show ?case by (simp add: kp_basic)
next
  case (Cons f fs)
  show ?case
    by (simp add: kp_bind kp_file_calls Cons.IH)
qed

lemma pruneComponentHistory_process:
  "process_ended (snd (pruneComponentHistory env n w)) = process_ended w"
  unfolding pruneComponentHistory_def
  by (simp add: kp_basic kp_catch kp_bind kp_file_calls remove_files_process)

lemma saveToHistory_process:
  assumes "\<not> useDatabase env"
  shows "process_ended (snd (saveToHistory env clk n c w)) = process_ended w"
  unfolding saveToHistory_def Let_def
  using assms
  by (simp add: kp_basic kp_catch kp_bind kp_when kp_file_calls pruneComponentHistory_process)

subsection \<open>The file backend when no operation fails\<close>

lemma remove_files_ok:
  assumes "\<And>op. \<not> faulty env op" "history_dirs w n = Some d"
  shows "remove_files env n fs w =
           (Inr (), w\<lparr>history_dirs := (history_dirs w)(n \<mapsto> fold AList.delete fs d),
                      io_trace := io_trace w @ map (RemoveHistoryFile n) fs\<rparr>)"
  using assms
proof (induction fs arbitrary: w d)
  case Nil
  then show ?case by (simp add: io_defs fun_upd_idem)
next
  case (Cons f fs)
  have "remove_history env n f w =
          (Inr (), w\<lparr>io_trace := io_trace w @ [RemoveHistoryFile n f],
                     history_dirs := (history_dirs w)(n \<mapsto> AList.delete f d)\<rparr>)"
    using Cons.prems by (simp add: remove_history_def io_defs)
  then show ?case
    using Cons.prems Cons.IH [of "w\<lparr>io_trace := io_trace w @ [RemoveHistoryFile n f],
                     history_dirs := (history_dirs w)(n \<mapsto> AList.delete f d)\<rparr>" "AList.delete f d"]
    by (simp add: io_defs cong: if_cong)
qed

lemma prune_ok:
  assumes "\<And>op. \<not> faulty env op" "\<not> useDatabase env" "history_dirs w n \<noteq> None"
  shows "pruneComponentHistory env n w =
           (Inr (), w\<lparr>history_dirs := (history_dirs w)(n \<mapsto> prune_dir (maxHistoryVersions env) (the (history_dirs w n))),
                      io_trace := io_trace w @ ReadHistoryDir n #
                         map (RemoveHistoryFile n)
                           (js_slice_from (maxHistoryVersions env) (rev (sort (map fst (the (history_dirs w n))))))\<rparr>)"
  using assms
  by (auto simp add: pruneComponentHistory_def readdir_history_def io_defs prune_dir_def
        remove_files_ok)

lemma saveToHistory_file_proj:
  assumes "\<And>op. \<not> faulty env op" "\<not> useDatabase env"
  shows "history_dirs (snd (saveToHistory env clk n c w)) =
           (history_dirs w)(n \<mapsto> prune_dir (maxHistoryVersions env)
              (AList.update (sanitize (now_iso clk) @ ''.md'') c
                 (case history_dirs w n of None \<Rightarrow> [] | Some d \<Rightarrow> d)))"
    and "files (snd (saveToHistory env clk n c w)) = files w"
    and "cache_data (snd (saveToHistory env clk n c w)) = cache_data w"
  using assms
  by (simp_all add: saveToHistory_def ensureDir_history_def writeFile_history_def io_defs2 Let_def
         prune_ok split: option.split)

lemma saveToHistory_never_throws:
  assumes "\<not> useDatabase env"
  shows "\<exists>b. fst (saveToHistory env clk n c w) = Inr b"
  unfolding saveToHistory_def Let_def
  using assms
  by (simp add: catch_total kp_basic kp_bind kp_when kp_file_calls pruneComponentHistory_process)

lemma bind_saveToHistory:
  assumes "\<not> useDatabase env"
  shows "io_bind (saveToHistory env clk n c) (\<lambda>_. m) = (\<lambda>w. m (snd (saveToHistory env clk n c w)))"
proof
  fix w
  obtain b where "fst (saveToHistory env clk n c w) = Inr b"
    using saveToHistory_never_throws [OF assms] by blast
  then show "io_bind (saveToHistory env clk n c) (\<lambda>_. m) w = m (snd (saveToHistory env clk n c w))"
    by (cases "saveToHistory env clk n c w") (simp add: io_bind_def)
qed

lemma updateComponent_file_proj:
  assumes "\<And>op. \<not> faulty env op" "\<not> useDatabase env" "map_of components n = Some f"
  shows "files (snd (updateComponent env clk n c w)) = (files w)(f \<mapsto> c)"
    and "history_dirs (snd (updateComponent env clk n c w)) =
           (case files w f of
              None \<Rightarrow> history_dirs w
            | Some p \<Rightarrow>
                if p \<noteq> c
                then (history_dirs w)(n \<mapsto> prune_dir (maxHistoryVersions env)
                       (AList.update (sanitize (now_iso clk) @ ''.md'') p
                          (case history_dirs w n of None \<Rightarrow> [] | Some d \<Rightarrow> d)))
                else history_dirs w)"
    and "cache_data (snd (updateComponent env clk n c w)) =
           (if cache_enabled env then js_set (cache_data w) n c else cache_data w)"
  using assms known_name [OF assms(3)]
  by (simp_all add: updateComponent_def bind_saveToHistory saveToHistory_process saveToHistory_file_proj fs_defs io_defs2 Let_def
         split: option.split)

lemma fold_delete_filter: "fold AList.delete ks d = filter (\<lambda>p. fst p \<notin> set ks) d"
proof (induction ks arbitrary: d)
  case Nil
  show ?case by simp
next
  case (Cons k ks)
  have "fold AList.delete (k # ks) d = filter (\<lambda>p. fst p \<notin> set ks) (AList.delete k d)"
    by (simp add: Cons.IH)
  also have "\<dots> = filter (\<lambda>p. fst p \<notin> set (k # ks)) d"
    by (auto simp add: AList.delete_eq intro: filter_cong)
  finally show ?case .
qed

lemma prune_dir_small:
  assumes "0 \<le> m" "length d \<le> nat m"
  shows "prune_dir m d = d"
  using assms by (simp add: prune_dir_def js_slice_from_def)

lemma prune_dir_length:
  assumes "0 \<le> m"
  shows "length (prune_dir m d) \<le> nat m"
proof -
  define s where "s = rev (sort (map fst d))"
  define B where "B = set (drop (nat m) s)"
  have ms: "mset (map fst d) = mset (take (nat m) s) + mset (drop (nat m) s)"
    by (simp add: s_def flip: mset_append)
  have sz: "size (filter_mset (\<lambda>k. k \<notin> B) (mset xs)) = length (filter (\<lambda>k. k \<notin> B) xs)" for xs
    by (metis mset_filter size_mset)
  have "length (prune_dir m d) = length (filter (\<lambda>k. k \<notin> B) (map fst d))"
    using assms by (simp add: prune_dir_def fold_delete_filter js_slice_from_def s_def B_def
        filter_map o_def)
  also have "\<dots> = size (filter_mset (\<lambda>k. k \<notin> B) (mset (map fst d)))"
    by (simp only: sz)
  also have "\<dots> = length (filter (\<lambda>k. k \<notin> B) (take (nat m) s))
                  + length (filter (\<lambda>k. k \<notin> B) (drop (nat m) s))"
    by (simp only: ms filter_union_mset size_union sz)
  also have "length (filter (\<lambda>k. k \<notin> B) (drop (nat m) s)) = 0"
    by (simp add: B_def)
  finally have "length (prune_dir m d) = length (filter (\<lambda>k. k \<notin> B) (take (nat m) s))"
    by simp
  also have "\<dots> \<le> length (take (nat m) s)"
    by (rule length_filter_le)
  also have "\<dots> \<le> nat m"
    by simp
  finally show ?thesis .
qed

lemma read_versions_ok:
  assumes "\<And>op. \<not> faulty env op" "history_dirs w n = Some d" "set fs \<subseteq> fst ` set d"
  shows "read_versions env n fs w =
           (Inr (map (\<lambda>f. (version_timestamp f, the (map_of d f))) fs),
            w\<lparr>io_trace := io_trace w @ map (ReadHistoryFile n) fs\<rparr>)"
  using assms
proof (induction fs arbitrary: w)
  case Nil
  then show ?case by (simp add: io_defs)
next
  case (Cons f fs)
  from Cons.prems have "f \<in> fst ` set d" by auto
  then have "map_of d f \<noteq> None" by (simp add: map_of_eq_None_iff)
  then obtain c where c: "map_of d f = Some c" by blast
  have "readFile_history env n f w = (Inr c, w\<lparr>io_trace := io_trace w @ [ReadHistoryFile n f]\<rparr>)"
    using Cons.prems c by (simp add: readFile_history_def io_defs)
  then show ?case
    using Cons.prems c Cons.IH [of "w\<lparr>io_trace := io_trace w @ [ReadHistoryFile n f]\<rparr>"]
    by (simp add: io_defs)
qed

lemma getComponentHistory_file:
  assumes "\<And>op. \<not> faulty env op" "\<not> useDatabase env" "truthy (js_get components n)"
    "history_dirs w n = Some d"
  shows "fst (getComponentHistory env n lim co w) =
           Inr (if co
                then Contents (map (\<lambda>f. the (map_of d f))
                       (case lim of Limit k \<Rightarrow> js_slice_to k (rev (sort (map fst d)))
                                  | Infinity \<Rightarrow> rev (sort (map fst d))))
                else FileVersions (map (\<lambda>f. (version_timestamp f, the (map_of d f)))
                       (case lim of Limit k \<Rightarrow> js_slice_to k (rev (sort (map fst d)))
                                  | Infinity \<Rightarrow> rev (sort (map fst d)))))"
proof -
  define fs where "fs = (case lim of Limit k \<Rightarrow> js_slice_to k (rev (sort (map fst d)))
                                  | Infinity \<Rightarrow> rev (sort (map fst d)))"
  have sub: "set fs \<subseteq> fst ` set d"
    by (auto simp add: fs_def js_slice_to_def split: limit.splits dest: in_set_takeD)
  have rv: "read_versions env n fs w' =
           (Inr (map (\<lambda>f. (version_timestamp f, the (map_of d f))) fs),
            w'\<lparr>io_trace := io_trace w' @ map (ReadHistoryFile n) fs\<rparr>)"
    if "history_dirs w' n = Some d" for w'
    using read_versions_ok [OF assms(1) that sub] .
  show ?thesis
    using assms
    by (simp add: getComponentHistory_def existsSync_history_dir_def readdir_history_def io_defs
          Let_def rv flip: fs_def)
qed

text \<open>In file mode a write never leaves more history versions than the retention bound
  allows, and what pruning removes are the smallest file names, that is the oldest
  versions (\<open>prune_ok\<close>).\<close>

lemma updateComponent_file_bounded:
  assumes "\<And>op. \<not> faulty env op" "\<not> useDatabase env" "map_of components n = Some f"
    and "0 \<le> maxHistoryVersions env"
    and "\<And>d. history_dirs w n = Some d \<Longrightarrow> length d \<le> nat (maxHistoryVersions env)"
    and "history_dirs (snd (updateComponent env clk n c w)) n = Some d'"
  shows "length d' \<le> nat (maxHistoryVersions env)"
  using assms(4-6) prune_dir_length [OF assms(4)]
  by (auto simp add: updateComponent_file_proj [OF assms(1-3)] split: option.splits if_splits)

subsection \<open>Evaluation of the concrete scenarios\<close>

lemmas file_eval = initialize_def updateComponent_def saveToHistory_def pruneComponentHistory_def
  getComponentHistory_def getComponent_def getComponent_file_def appendToComponent_def
  js_get_def js_set_def components_def object_prototype_def sanitize_def js_slice_from_def js_slice_to_def
  fs_defs io_defs nm_defs scenario_defs Let_def

lemmas db_eval = initialize_def updateComponent_def getComponentHistory_def getComponent_def
  getComponent_db_def appendToComponent_def
  js_get_def js_set_def components_def object_prototype_def sql_limit_def history_newest_first_def
  db_defs io_defs nm_defs scenario_defs Let_def

subsection \<open>Decimal numerals and the database backend\<close>

lemma digit_inj: "a < 10 \<Longrightarrow> b < 10 \<Longrightarrow> digit a = digit b \<Longrightarrow> a = b"
proof -
  assume a: "a < 10" and b: "b < 10" and e: "digit a = digit b"
  have d: "distinct ''0123456789''" by simp
  have "length ''0123456789'' = 10" by simp
  with a b e d show "a = b"
    unfolding digit_def by (metis nth_eq_iff_index_eq)
qed

lemma dec_length: "n < 10 \<longleftrightarrow> length (dec n) = 1"
proof (cases "n < 10")
  case True
  then show ?thesis by (simp add: dec.simps)
next
  case False
  have "dec (n div 10) \<noteq> []" by (subst dec.simps) simp
  then have ge: "length (dec (n div 10)) \<ge> 1" by (cases "dec (n div 10)") auto
  have "dec n = dec (n div 10) @ [digit (n mod 10)]" using False by (subst dec.simps) simp
  then have "length (dec n) = length (dec (n div 10)) + 1" by simp
  with ge False show ?thesis by arith
qed

lemma dec_inj: "dec m = dec n \<Longrightarrow> m = n"
proof (induction m arbitrary: n rule: dec.induct)
  case (1 m)
  show ?case
  proof (cases "m < 10")
    case True
    with "1.prems" have "n < 10" using dec_length by metis
    with True "1.prems" show ?thesis by (simp add: dec.simps digit_inj)
  next
    case False
    with "1.prems" have n: "\<not> n < 10" using dec_length by metis
    from False n "1.prems" have "dec (m div 10) @ [digit (m mod 10)] = dec (n div 10) @ [digit (n mod 10)]"
      by (simp add: dec.simps [of m] dec.simps [of n])
    then have a: "dec (m div 10) = dec (n div 10)" and b: "digit (m mod 10) = digit (n mod 10)"
      by auto
    from "1.IH" [OF False a] have "m div 10 = n div 10" .
    moreover from b have "m mod 10 = n mod 10" by (intro digit_inj) auto
    ultimately show ?thesis by (metis div_mult_mod_eq)
  qed
qed

lemma newest_first_subset: "set (history_newest_first n rows) \<subseteq> set rows"
  by (auto simp add: history_newest_first_def)

lemma dec_digits: "set (dec i) \<subseteq> set ''0123456789''"
proof (induction i rule: dec.induct)
  case (1 n)
  have d: "digit k \<in> set ''0123456789''" if "k < 10" for k
    unfolding digit_def using that by (intro nth_mem) simp
  show ?case
  proof (cases "n < 10")
    case True
    then show ?thesis using d [of n] by (subst dec.simps) simp
  next
    case False
    then show ?thesis
      using "1.IH" d [of "n mod 10"] by (subst dec.simps) simp
  qed
qed

lemma stub_not_dec: "toISOString_stub t \<noteq> dec i"
proof
  assume e: "toISOString_stub t = dec i"
  have "CHR ''T'' \<in> set (toISOString_stub t)" by (simp add: toISOString_stub_def)
  with e have "CHR ''T'' \<in> set (dec i)" by simp
  with dec_digits [of i] show False by auto
qed

lemma stub_inj: "inj toISOString_stub"
  by (rule injI) (simp add: toISOString_stub_def dec_inj)

lemma newest_first_descending:
  "sorted (rev (map created_at (history_newest_first n rows)))"
proof -
  let ?S = "history_newest_first n rows"
  have "sorted (map (\<lambda>r. - int (created_at r)) ?S)"
    unfolding history_newest_first_def by (rule sorted_sort_key)
  then have "sorted_wrt (\<lambda>x y. created_at y \<le> created_at x) ?S"
    by (simp add: sorted_wrt_map)
  then show ?thesis
    by (simp add: sorted_wrt_rev sorted_wrt_map flip: rev_map)
qed

lemma newest_rows_are_newer:
  assumes "10 \<le> length (filter (\<lambda>v. component_id v = n \<and> t < created_at v) rows)"
    and "v \<in> set (take 10 (history_newest_first n rows))"
  shows "t < created_at v"
proof -
  let ?F = "filter (\<lambda>r. component_id r = n) rows"
  let ?S = "history_newest_first n rows"
  have tw: "filter (\<lambda>x. t < created_at x) ?S = takeWhile (\<lambda>x. t < created_at x) ?S"
    by (rule filter_equals_takeWhile_sorted_rev [OF newest_first_descending])
  have "length (filter (\<lambda>x. t < created_at x) ?S) = length (filter (\<lambda>x. t < created_at x) ?F)"
    by (simp add: history_newest_first_def filter_sort)
  also have "\<dots> = length (filter (\<lambda>v. component_id v = n \<and> t < created_at v) rows)"
    by simp
  finally have len: "10 \<le> length (takeWhile (\<lambda>x. t < created_at x) ?S)"
    using assms(1) tw by simp
  define tw where "tw = takeWhile (\<lambda>x. t < created_at x) ?S"
  define dw where "dw = dropWhile (\<lambda>x. t < created_at x) ?S"
  have S: "history_newest_first n rows = tw @ dw"
    by (simp add: tw_def dw_def)
  from len have "10 \<le> length tw" by (simp add: tw_def)
  then have "take 10 (tw @ dw) = take 10 tw" by simp
  with assms(2) have "v \<in> set (take 10 tw)" unfolding S by (simp only:)
  then have "v \<in> set (takeWhile (\<lambda>x. t < created_at x) ?S)"
    unfolding tw_def by (rule in_set_takeD)
  then show ?thesis by (rule set_takeWhileD [THEN conjunct2])
qed

lemma updateComponent_db_proj:
  assumes "\<And>op. \<not> faulty env op" "useDatabase env" "truthy (js_get components n)"
  shows "components_table (snd (updateComponent env clk n c w)) =
           AList.update n
             (case map_of (components_table w) n of
                None \<Rightarrow> \<lparr>comp_name = n, comp_content = c, updated_at = now_ms clk\<rparr>
              | Some r \<Rightarrow> r\<lparr>comp_content := c, updated_at := now_ms clk\<rparr>)
             (components_table w)"
    and "component_history (snd (updateComponent env clk n c w)) =
           component_history w @
             [\<lparr>row_id = last_history_id w + 1, component_id = n, content = c, created_at = now_ms clk\<rparr>]"
    and "cache_data (snd (updateComponent env clk n c w)) =
           (if cache_enabled env then js_set (cache_data w) n c else cache_data w)"
  using assms
  by (simp_all add: updateComponent_def db_defs io_defs2 Let_def split: option.split)

lemma cache_hit_after_update:
  assumes "\<And>op. \<not> faulty env op" "cache_enabled env" "map_of components n = Some f" "v \<noteq> []"
  shows "getComponent env c2 n (snd (updateComponent env c1 n v w)) =
           (Inr (Own v),
            (snd (updateComponent env c1 n v w))
              \<lparr>cache_hits := cache_hits (snd (updateComponent env c1 n v w)) + 1\<rparr>)"
proof -
  have "cache_data (snd (updateComponent env c1 n v w)) = js_set (cache_data w) n v"
    using assms known_name [OF assms(3)]
    by (cases "useDatabase env")
       (simp_all add: updateComponent_db_proj updateComponent_file_proj)
  moreover have "js_get (js_set (cache_data w) n v) n = Own v"
    using known_name [OF assms(3)] by (simp add: js_get_def js_set_def update_conv')
  ultimately show ?thesis
    using assms known_name [OF assms(3)] by (simp add: getComponent_def)
qed

subsection \<open>appendToComponent and the notifications of a write\<close>

lemma emit_delivered:
  "\<exists>xs. delivered (snd (emit ev d nm)) = delivered nm @ xs \<and> (\<forall>x \<in> set xs. fst (snd x) = ev)"
  by (auto simp add: emit_def call_listeners_prefix dest: in_set_takeD set_takeWhileD)

lemma history_added_keeps_component_events:
  "filter (\<lambda>x. fst (snd x) = ''component-updated'' \<or> fst (snd x) = ''component-created'')
      (delivered (snd (notifyComponentHistoryAdded clk n v nm)))
   = filter (\<lambda>x. fst (snd x) = ''component-updated'' \<or> fst (snd x) = ''component-created'')
      (delivered nm)"
proof -
  obtain xs where xs: "delivered (snd (notifyComponentHistoryAdded clk n v nm)) = delivered nm @ xs"
      "\<forall>x \<in> set xs. fst (snd x) = ''component-history-added''"
    unfolding notifyComponentHistoryAdded_def using emit_delivered by blast
  have "filter (\<lambda>x. fst (snd x) = ''component-updated'' \<or> fst (snd x) = ''component-created'') xs = []"
    using xs(2) by (auto simp add: filter_empty_conv)
  with xs(1) show ?thesis by simp
qed

lemma saveToHistory_file_nm:
  assumes "\<And>op. \<not> faulty env op" "\<not> useDatabase env"
  shows "notificationManager (snd (saveToHistory env clk n c w)) =
           (if enableRealTimeUpdates env
            then snd (notifyComponentHistoryAdded clk n (sanitize (now_iso clk)) (notificationManager w))
            else notificationManager w)"
  using assms
  by (simp add: saveToHistory_def ensureDir_history_def writeFile_history_def io_defs2 Let_def
         prune_ok split: option.split)

lemma appendToComponent_file_proj:
  assumes "\<And>op. \<not> faulty env op" "\<not> useDatabase env" "map_of components n = Some f"
  shows "files (snd (appendToComponent env clk n c w)) =
           (files w)(f \<mapsto> (case files w f of None \<Rightarrow> [] | Some p \<Rightarrow> p) @ c)"
    and "history_dirs (snd (appendToComponent env clk n c w)) =
           (case files w f of
              None \<Rightarrow> history_dirs w
            | Some p \<Rightarrow>
                (history_dirs w)(n \<mapsto> prune_dir (maxHistoryVersions env)
                   (AList.update (sanitize (now_iso clk) @ ''.md'') p
                      (case history_dirs w n of None \<Rightarrow> [] | Some d \<Rightarrow> d))))"
    and "notificationManager (snd (appendToComponent env clk n c w)) =
           (case files w f of
              None \<Rightarrow> notificationManager w
            | Some p \<Rightarrow>
                if enableRealTimeUpdates env
                then snd (notifyComponentHistoryAdded clk n (sanitize (now_iso clk)) (notificationManager w))
                else notificationManager w)"
  using assms known_name [OF assms(3)]
  by (simp_all add: appendToComponent_def bind_saveToHistory saveToHistory_process saveToHistory_file_proj
         saveToHistory_file_nm fs_defs io_defs2 Let_def split: option.split)

lemma appendToComponent_db_proj:
  assumes "\<And>op. \<not> faulty env op" "useDatabase env" "truthy (js_get components n)"
  shows "components_table (snd (appendToComponent env clk n c w)) =
           components_table (snd (updateComponent env clk n
             ((case map_of (components_table w) n of None \<Rightarrow> [] | Some r \<Rightarrow> comp_content r) @ c) w))"
    and "component_history (snd (appendToComponent env clk n c w)) =
           component_history (snd (updateComponent env clk n
             ((case map_of (components_table w) n of None \<Rightarrow> [] | Some r \<Rightarrow> comp_content r) @ c) w))"
    and "cache_data (snd (appendToComponent env clk n c w)) =
           cache_data (snd (updateComponent env clk n
             ((case map_of (components_table w) n of None \<Rightarrow> [] | Some r \<Rightarrow> comp_content r) @ c) w))"
    and "notificationManager (snd (appendToComponent env clk n c w)) = notificationManager w"
  using assms
  by (simp_all add: updateComponent_db_proj)
     (simp_all add: appendToComponent_def db_defs io_defs2 Let_def split: option.split)

lemma appendToComponent_file_bounded:
  assumes "\<And>op. \<not> faulty env op" "\<not> useDatabase env" "map_of components n = Some f"
    and "0 \<le> maxHistoryVersions env"
    and "\<And>d. history_dirs w n = Some d \<Longrightarrow> length d \<le> nat (maxHistoryVersions env)"
    and "history_dirs (snd (appendToComponent env clk n c w)) n = Some d'"
  shows "length d' \<le> nat (maxHistoryVersions env)"
  using assms(4-6) prune_dir_length [OF assms(4)]
  by (auto simp add: appendToComponent_file_proj [OF assms(1-3)] split: option.splits if_splits)

lemma unknown_component_rejected:
  assumes "map_of components n = None" "n \<notin> set object_prototype"
  shows "getComponent env clk n w = (Inl (UnknownComponent n), w)"
    and "updateComponent env clk n c w = (Inl (UnknownComponent n), w)"
  using assms by (simp_all add: getComponent_def updateComponent_def js_get_def io_throw_def)

subsection \<open>What can end the process\<close>


















subsection \<open>Errors thrown to the caller\<close>














subsection \<open>Errors that are caught\<close>




















subsection \<open>A history version that cannot be saved\<close>



lemma kf_perform:
  assumes "\<And>w. files (snd (act w)) = files w"
  shows "files (snd (perform env op act w)) = files w"
  using assms by (simp add: perform_def Let_def)










subsection \<open>A database file that cannot be opened\<close>

text \<open>In a running process, with the adapter not yet initialized, \<open>isInitialized\<close> and
  \<open>getAllComponents\<close> return nothing when the database file cannot be opened: their
  handlers are not reached and the process ends.\<close>

lemma isInitialized_process_ends:
  assumes "useDatabase env" "\<not> database_opens env" "\<not> db_initialized w" "\<not> process_ended w"
  shows "fst (isInitialized env w) = Inl (IOError DbInitialize) \<and>
         process_ended (snd (isInitialized env w))"
  using assms
  by (simp add: isInitialized_def db_initialize_def database_opens_def io_defs Let_def)

lemma getAllComponents_process_ends:
  assumes "useDatabase env" "\<not> database_opens env" "\<not> db_initialized w" "\<not> process_ended w"
  shows "fst (getAllComponents env clk w) = Inl (IOError DbInitialize) \<and>
         process_ended (snd (getAllComponents env clk w))"
  using assms
  by (simp add: getAllComponents_def db_defs database_opens_def io_defs Let_def)

lemma open_failure_ends_process:
  "fst (isInitialized no_open_env fresh_world) = Inl (IOError DbInitialize)"
  "process_ended (snd (isInitialized no_open_env fresh_world))"
  "fst (getAllComponents no_open_env t1 fresh_world) = Inl (IOError DbInitialize)"
  "process_ended (snd (getAllComponents no_open_env t1 fresh_world))"
  using isInitialized_process_ends [of no_open_env fresh_world]
    getAllComponents_process_ends [of no_open_env fresh_world t1]
  by (simp_all add: no_open_env_def database_opens_def scenario_defs)

section \<open>Claims about the notification manager\<close>

text \<open>
  C5, as the code has it: publishing invokes the callbacks of the matching subscribers (the
  listeners of the event type whose subscription still exists) synchronously and in
  subscription order, up to and including the first callback that throws. That exception
  is not caught: it is the outcome of the publication, and the callbacks of the matching
  subscribers after it are not invoked. When no callback throws, every matching
  subscriber is invoked and the publication returns normally.
\<close>

theorem emit_until_first_throw:
  "emit ev d nm =
     (case dropWhile (\<lambda>l. snd (snd l) ev d = None)
             (filter (\<lambda>l. fst l = ev \<and> map_of (subscriptions nm) (fst (snd l)) \<noteq> None) (listeners nm)) of
        [] \<Rightarrow> None
      | l # _ \<Rightarrow> snd (snd l) ev d,
      nm\<lparr>delivered := delivered nm @ map (\<lambda>l. (fst (snd l), ev, d))
             (takeWhile (\<lambda>l. snd (snd l) ev d = None)
                (filter (\<lambda>l. fst l = ev \<and> map_of (subscriptions nm) (fst (snd l)) \<noteq> None) (listeners nm))
              @ take 1 (dropWhile (\<lambda>l. snd (snd l) ev d = None)
                (filter (\<lambda>l. fst l = ev \<and> map_of (subscriptions nm) (fst (snd l)) \<noteq> None) (listeners nm))))\<rparr>)"
  by (simp add: emit_def call_listeners_prefix)

text \<open>The publication of C5 at two subscribers, the first of which throws.\<close>

theorem emit_until_first_throw_witness:
  "emit ''component-updated'' (TimestampPayload ''x'') two_subscribers =
     (Some (CallbackError ''subscriber failed''),
      two_subscribers\<lparr>delivered := [(''first-1'', ''component-updated'', TimestampPayload ''x'')]\<rparr>)"
  using emit_until_first_throw [of "''component-updated''" "TimestampPayload ''x''" two_subscribers]
  by (simp add: two_subscribers_def subscribe_def new_notification_manager_def
        throwing_callback_def quiet_callback_def dec_small Let_def)

text \<open>
  C5 as stated fails: with two subscribers to component updates, the first of which
  throws, the notification ends with that exception and only the first callback has been
  invoked.
\<close>

theorem throwing_subscriber_stops_delivery:
  "fst (notifyComponentUpdated t3 ''progress'' ''x'' two_subscribers)
     = Some (CallbackError ''subscriber failed'') \<and>
   map fst (delivered (snd (notifyComponentUpdated t3 ''progress'' ''x'' two_subscribers)))
     = [''first-1'']"
  by (simp add: notifyComponentUpdated_def emit_def two_subscribers_def subscribe_def
        new_notification_manager_def throwing_callback_def quiet_callback_def dec_small Let_def)

text \<open>
  C9, as the code has it: on a new notification manager, a subscription made with null
  event types receives exactly the five event types of \<open>EVENT_TYPES\<close> (one invocation per
  event published, none for any other event type), and a subscription made with an empty
  list of event types receives nothing.
\<close>

theorem subscribe_null_or_empty:
  "(ev \<in> set EVENT_TYPES \<longrightarrow>
      delivered (snd (emit ev d (snd (subscribe now conn None cb new_notification_manager))))
        = [(conn @ ''-'' @ dec now, ev, d)]) \<and>
   (ev \<notin> set EVENT_TYPES \<longrightarrow>
      delivered (snd (emit ev d (snd (subscribe now conn None cb new_notification_manager)))) = []) \<and>
   delivered (snd (emit ev d (snd (subscribe now conn (Some []) cb new_notification_manager)))) = []"
  by (auto simp add: subscribe_def emit_def EVENT_TYPES_def new_notification_manager_def Let_def
        split: option.splits prod.splits)

theorem subscribe_null_or_empty_witness:
  "''cache-cleared'' \<in> set EVENT_TYPES \<and>
   delivered (snd (emit ''cache-cleared'' (TimestampPayload ''x'')
     (snd (subscribe 7 ''c'' None quiet_callback new_notification_manager))))
     = [(''c-7'', ''cache-cleared'', TimestampPayload ''x'')]"
  using subscribe_null_or_empty [of "''cache-cleared''" "TimestampPayload ''x''" 7 "''c''" quiet_callback]
  by (simp add: EVENT_TYPES_def dec_small)

text \<open>
  C9 as stated fails for the empty list: a subscriber registered with an empty list of
  event types is not invoked when a component update is published.
\<close>

theorem empty_event_list_receives_nothing:
  "delivered (snd (notifyComponentUpdated t2 ''progress'' ''x''
     (snd (subscribe 1 ''c'' (Some []) quiet_callback new_notification_manager)))) = []"
  by (simp add: notifyComponentUpdated_def emit_def subscribe_def new_notification_manager_def Let_def)

section \<open>Claims about the guard on component names\<close>

text \<open>
  C4 at the name \<open>constructor\<close>, which is none of the five component ids: the guard reads
  the property every object inherits and lets the name pass. With the database backend
  the update succeeds and leaves a row for it, and so does the read, which returns the
  empty string; with the cache enabled the read is answered from the inherited property
  of the cache object; with the file backend both end in a TypeError, not in the
  unknown-component error. (A name that is neither a component id nor a property of
  \<^verbatim>\<open>Object.prototype\<close> is rejected with nothing done, \<open>unknown_component_rejected\<close>.)
\<close>

theorem inherited_name_passes_guard:
  "map_of components ''constructor'' = None \<and>
   fst (updateComponent db_env t1 ''constructor'' ''x'' fresh_world) = Inr True \<and>
   map fst (components_table (snd (updateComponent db_env t1 ''constructor'' ''x'' fresh_world)))
     = [''constructor''] \<and>
   fst (getComponent db_env t1 ''constructor'' fresh_world) = Inr (Own []) \<and>
   map fst (components_table (snd (getComponent db_env t1 ''constructor'' fresh_world)))
     = [''constructor''] \<and>
   getComponent cached_file_env t1 ''constructor'' fresh_world
     = (Inr (Inherited ''constructor''), fresh_world\<lparr>cache_hits := 1\<rparr>) \<and>
   fst (updateComponent file_env t1 ''constructor'' ''x'' fresh_world) = Inl TypeError \<and>
   fst (getComponent file_env t1 ''constructor'' fresh_world) = Inl TypeError"
  by (simp add: updateComponent_def getComponent_def getComponent_db_def getComponent_file_def
        defaultMethod_def toUpperCase_def default_methods_def
        js_get_def components_def object_prototype_def io_defs db_defs
        nm_defs scenario_defs cached_file_env_def Let_def)

section \<open>Claims about history versions\<close>

text \<open>
  C1 in database mode, with a retention bound of 2: after \<^verbatim>\<open>initialize()\<close> and three
  updates of the progress component the history table holds four versions of it. The
  update path of the database branch never prunes (pruning is only reached from
  \<open>saveToHistory\<close>, which the database branch of \<open>updateComponent\<close> does not call). The
  same calls in file mode leave two versions, the two newest.
\<close>

theorem database_history_exceeds_bound:
  "maxHistoryVersions db_env = 2 \<and>
   map content (filter (\<lambda>r. component_id r = ''progress'')
      (component_history (three_updates db_env db_store0 ''a'' ''b'' ''c'')))
     = [getDefaultProgress, ''a'', ''b'', ''c''] \<and>
   maxHistoryVersions file_env2 = 2 \<and>
   history_dirs (three_updates file_env2 (snd (initialize file_env2 t1 fresh_world)) ''a'' ''b'' ''c'') ''progress''
     = Some [(''2024-01-01T00-00-00-003Z.md'', ''a''), (''2024-01-01T00-00-00-004Z.md'', ''b'')]"
proof (intro conjI)
  show "map content (filter (\<lambda>r. component_id r = ''progress'')
      (component_history (three_updates db_env db_store0 ''a'' ''b'' ''c'')))
     = [getDefaultProgress, ''a'', ''b'', ''c'']"
    by (simp add: three_updates_def db_store0_def db_eval)
  show "history_dirs (three_updates file_env2 (snd (initialize file_env2 t1 fresh_world)) ''a'' ''b'' ''c'') ''progress''
     = Some [(''2024-01-01T00-00-00-003Z.md'', ''a''), (''2024-01-01T00-00-00-004Z.md'', ''b'')]"
    by (simp add: three_updates_def file_env2_def file_eval getDefaultProgress_def)
qed (simp_all add: file_env2_def scenario_defs)

text \<open>
  C2, as the code has it in file mode: when no backend operation fails, the retention
  bound is at least 3, the component file holds \<open>p\<close>, there is no history yet, the three
  updates are made at clock readings whose history file names are strictly increasing,
  and \<open>p \<noteq> v1\<close>, \<open>v1 \<noteq> v2\<close>, \<open>v2 \<noteq> v3\<close>, then the history read back holds the contents
  \<open>[v2, v1, p]\<close>, as bare contents or as versions with the timestamp taken from the file
  name: each version holds the content that its update overwrote, newest first, without
  the current value.
\<close>

theorem three_updates_history:
  assumes "\<And>op. \<not> faulty env op" and "\<not> useDatabase env"
    and "map_of components n = Some f"
    and "files w f = Some p"
    and "history_dirs w n = None \<or> history_dirs w n = Some []"
    and "3 \<le> maxHistoryVersions env"
    and "p \<noteq> v1" and "v1 \<noteq> v2" and "v2 \<noteq> v3"
    and "sanitize (now_iso c1) @ ''.md'' < sanitize (now_iso c2) @ ''.md''"
    and "sanitize (now_iso c2) @ ''.md'' < sanitize (now_iso c3) @ ''.md''"
  shows "fst (getComponentHistory env n Infinity contentOnly
           (snd (updateComponent env c3 n v3
             (snd (updateComponent env c2 n v2
               (snd (updateComponent env c1 n v1 w)))))))
         = Inr (if contentOnly then Contents [v2, v1, p]
                else FileVersions
                       [(version_timestamp (sanitize (now_iso c3) @ ''.md''), v2),
                        (version_timestamp (sanitize (now_iso c2) @ ''.md''), v1),
                        (version_timestamp (sanitize (now_iso c1) @ ''.md''), p)])"
proof -
  let ?s1 = "sanitize (now_iso c1) @ ''.md''"
  let ?s2 = "sanitize (now_iso c2) @ ''.md''"
  let ?s3 = "sanitize (now_iso c3) @ ''.md''"
  define w1 where "w1 = snd (updateComponent env c1 n v1 w)"
  define w2 where "w2 = snd (updateComponent env c2 n v2 w1)"
  define w3 where "w3 = snd (updateComponent env c3 n v3 w2)"
  note proj = updateComponent_file_proj [OF assms(1-3)]
  have m: "0 \<le> maxHistoryVersions env" "Suc 0 \<le> nat (maxHistoryVersions env)"
    "2 \<le> nat (maxHistoryVersions env)" "3 \<le> nat (maxHistoryVersions env)"
    using assms(6) by auto
  have s: "?s1 \<noteq> ?s2" "?s2 \<noteq> ?s3" "?s1 \<noteq> ?s3" "?s1 < ?s3"
    using assms(10,11) by auto
  have f1: "files w1 f = Some v1" and h1: "history_dirs w1 n = Some [(?s1, p)]"
    using assms(4,5,7) m by (auto simp add: w1_def proj prune_dir_small)
  have f2: "files w2 f = Some v2" and h2: "history_dirs w2 n = Some [(?s1, p), (?s2, v1)]"
    using f1 h1 assms(8) m s by (auto simp add: w2_def proj prune_dir_small)
  have h3: "history_dirs w3 n = Some [(?s1, p), (?s2, v1), (?s3, v2)]"
    using f2 h2 assms(9) m s by (auto simp add: w3_def proj prune_dir_small)
  have srt: "rev (sort [?s1, ?s2, ?s3]) = [?s3, ?s2, ?s1]"
    using assms(10,11) s by (auto simp add: less_imp_le)
  have "fst (getComponentHistory env n Infinity contentOnly w3)
         = Inr (if contentOnly then Contents [v2, v1, p]
                else FileVersions [(version_timestamp ?s3, v2), (version_timestamp ?s2, v1),
                                   (version_timestamp ?s1, p)])"
    using getComponentHistory_file [OF assms(1,2) _ h3, of Infinity contentOnly]
      known_name [OF assms(3)] srt s
    by simp
  then show ?thesis by (simp add: w1_def w2_def w3_def)
qed

theorem three_updates_history_witness:
  "map_of components ''progress'' = Some ''progress.md'' \<and>
   files (stored ''p'') ''progress.md'' = Some ''p'' \<and>
   3 \<le> maxHistoryVersions file_env \<and>
   fst (getComponentHistory file_env ''progress'' Infinity True
          (snd (updateComponent file_env t3 ''progress'' ''c''
            (snd (updateComponent file_env t2 ''progress'' ''b''
              (snd (updateComponent file_env t1 ''progress'' ''a'' (stored ''p''))))))))
     = Inr (Contents [''b'', ''a'', ''p''])"
  using three_updates_history [of file_env "''progress''" "''progress.md''" "stored ''p''" "''p''"
      "''a''" "''b''" "''c''" t1 t2 t3 True]
  by (simp add: components_def stored_def sanitize_def scenario_defs)

text \<open>
  C2 as stated fails. In file mode, on an initialized store, three updates with the
  pairwise distinct values default content, \<open>b\<close>, \<open>c\<close> leave two versions, not three: the
  first update does not change the content and writes no version. In database mode,
  three updates with \<open>a\<close>, \<open>b\<close>, \<open>c\<close> leave the history \<open>c\<close>, \<open>b\<close>, \<open>a\<close>, default: each version
  holds the content written, the current value included.
\<close>

theorem three_updates_history_fails:
  "fst (getComponentHistory file_env ''progress'' Infinity True
          (three_updates file_env file_store0 getDefaultProgress ''b'' ''c''))
     = Inr (Contents [''b'', getDefaultProgress]) \<and>
   fst (getComponentHistory db_env ''progress'' (Limit 10) True
          (three_updates db_env db_store0 ''a'' ''b'' ''c''))
     = Inr (Contents [''c'', ''b'', ''a'', getDefaultProgress])"
proof
  show "fst (getComponentHistory file_env ''progress'' Infinity True
          (three_updates file_env file_store0 getDefaultProgress ''b'' ''c''))
     = Inr (Contents [''b'', getDefaultProgress])"
    by (simp add: three_updates_def file_store0_def file_eval getDefaultProgress_def)
  show "fst (getComponentHistory db_env ''progress'' (Limit 10) True
          (three_updates db_env db_store0 ''a'' ''b'' ''c''))
     = Inr (Contents [''c'', ''b'', ''a'', getDefaultProgress])"
    by (simp add: three_updates_def db_store0_def db_eval)
qed

text \<open>
  C3, as the code has it in file mode, when no backend operation fails: of two updates
  in a row with the same value \<open>v\<close>, the second leaves the history as it found it. The
  first writes one version, holding the prior content \<open>p\<close>, when the component file
  exists with \<open>p \<noteq> v\<close> (with no history before and a retention bound of at least 1,
  that version is then the whole history); it writes none when the component file does
  not exist or already holds \<open>v\<close>.
\<close>

theorem repeated_update_one_version:
  assumes "\<And>op. \<not> faulty env op" and "\<not> useDatabase env"
    and "map_of components n = Some f"
  shows "history_dirs (snd (updateComponent env c2 n v (snd (updateComponent env c1 n v w))))
           = history_dirs (snd (updateComponent env c1 n v w)) \<and>
         files (snd (updateComponent env c2 n v (snd (updateComponent env c1 n v w)))) f = Some v \<and>
         (files w f = Some p \<and> p \<noteq> v \<and> 1 \<le> maxHistoryVersions env \<and>
          (history_dirs w n = None \<or> history_dirs w n = Some [])
            \<longrightarrow> history_dirs (snd (updateComponent env c1 n v w)) n
                  = Some [(sanitize (now_iso c1) @ ''.md'', p)]) \<and>
         (files w f = None \<or> files w f = Some v
            \<longrightarrow> history_dirs (snd (updateComponent env c1 n v w)) = history_dirs w)"
proof -
  note proj = updateComponent_file_proj [OF assms(1-3)]
  have "prune_dir (maxHistoryVersions env) [(k, p)] = [(k, p)]"
    if "1 \<le> maxHistoryVersions env" for k
    using that by (intro prune_dir_small) auto
  then show ?thesis
    by (auto simp add: proj)
qed

theorem repeated_update_one_version_witness:
  "map_of components ''progress'' = Some ''progress.md'' \<and>
   files (stored ''p'') ''progress.md'' = Some ''p'' \<and>
   history_dirs (snd (updateComponent file_env t2 ''progress'' ''a''
       (snd (updateComponent file_env t1 ''progress'' ''a'' (stored ''p''))))) ''progress''
     = Some [(''2024-01-01T00-00-00-001Z.md'', ''p'')]"
  using repeated_update_one_version [of file_env "''progress''" "''progress.md''" t2 "''a''" t1
      "stored ''p''" "''p''"]
  by (simp add: components_def stored_def sanitize_def scenario_defs)

text \<open>
  C3 as stated fails. In file mode, on an initialized store, two updates in a row with
  the default content (the value the component already holds) create no history version
  at all. In database mode, two updates in a row with \<open>a\<close> add two history versions, both
  holding \<open>a\<close>, to the one that \<^verbatim>\<open>initialize()\<close> left.
\<close>

theorem repeated_update_fails:
  "history_dirs (snd (updateComponent file_env t3 ''progress'' getDefaultProgress
       (snd (updateComponent file_env t2 ''progress'' getDefaultProgress file_store0)))) ''progress''
     = None \<and>
   fst (getComponentHistory db_env ''progress'' (Limit 10) True
          (snd (updateComponent db_env t3 ''progress'' ''a''
            (snd (updateComponent db_env t2 ''progress'' ''a'' db_store0)))))
     = Inr (Contents [''a'', ''a'', getDefaultProgress])"
proof
  show "history_dirs (snd (updateComponent file_env t3 ''progress'' getDefaultProgress
       (snd (updateComponent file_env t2 ''progress'' getDefaultProgress file_store0)))) ''progress''
     = None"
    by (simp add: file_store0_def file_eval)
  show "fst (getComponentHistory db_env ''progress'' (Limit 10) True
          (snd (updateComponent db_env t3 ''progress'' ''a''
            (snd (updateComponent db_env t2 ''progress'' ''a'' db_store0)))))
     = Inr (Contents [''a'', ''a'', getDefaultProgress])"
    by (simp add: db_store0_def db_eval)
qed

section \<open>Claims about the cache\<close>

text \<open>
  C6 at the empty content: with the cache enabled, \<open>updateComponent\<close> stores the empty
  string in the cache, but the cache test of \<open>getComponent\<close> is a truthiness test and
  takes the empty string for a missing entry. The read after the update goes to the
  backend (an existence check and a file read) and counts no cache hit. For a non-empty
  content the read is served from the cache without any backend operation
  (\<open>cache_hit_after_update\<close>).
\<close>

theorem empty_content_bypasses_cache:
  "cache_enabled cached_file_env \<and>
   fst (updateComponent cached_file_env t1 ''progress'' [] (stored ''p'')) = Inr True \<and>
   fst (getComponent cached_file_env t2 ''progress''
          (snd (updateComponent cached_file_env t1 ''progress'' [] (stored ''p'')))) = Inr (Own []) \<and>
   io_trace (snd (getComponent cached_file_env t2 ''progress''
          (snd (updateComponent cached_file_env t1 ''progress'' [] (stored ''p'')))))
     = io_trace (snd (updateComponent cached_file_env t1 ''progress'' [] (stored ''p'')))
         @ [ExistsComponentFile ''progress.md'', ReadComponentFile ''progress.md''] \<and>
   cache_hits (snd (getComponent cached_file_env t2 ''progress''
          (snd (updateComponent cached_file_env t1 ''progress'' [] (stored ''p''))))) = 0"
  by (simp add: stored_def cached_file_env_def file_eval)

section \<open>Claims about version lookup\<close>

text \<open>
  C10: in database mode \<open>getComponentVersion\<close> looks the version up among the ten newest
  history rows of the component only. Take a history row of the component that is in
  the table while at least ten rows of the component are newer. Looked up by its id or
  by the ISO rendering of its timestamp, the version is reported as not found. (Row ids
  are the primary key of the table; \<open>toISOString\<close> is injective and never yields a
  decimal numeral.)
\<close>

theorem old_version_not_found:
  assumes "useDatabase env" and "\<not> faulty env DbInitialize" and "\<not> faulty env (DbSelectHistory n)"
    and "truthy (js_get components n)"
    and "r \<in> set (component_history w)" and "component_id r = n"
    and "10 \<le> length (filter (\<lambda>v. component_id v = n \<and> created_at r < created_at v)
                          (component_history w))"
    and "distinct (map row_id (component_history w))"
    and "inj toISOString" and "\<And>t i. toISOString t \<noteq> dec i"
    and "versionId = dec (row_id r) \<or> versionId = toISOString (created_at r)"
  shows "fst (getComponentVersion toISOString env n versionId w)
           = Inl (VersionNotFound versionId n)"
proof -
  let ?top = "take 10 (history_newest_first n (component_history w))"
  have "\<not> (dec (row_id v) = versionId \<or> toISOString (created_at v) = versionId)"
    if v: "v \<in> set ?top" for v
  proof -
    have newer: "created_at r < created_at v"
      using newest_rows_are_newer [OF assms(7) v] .
    from v have vin: "v \<in> set (component_history w)"
      using newest_first_subset by (meson in_set_takeD subsetD)
    from newer have "v \<noteq> r" by auto
    with vin assms(5,8) have "row_id v \<noteq> row_id r"
      by (meson distinct_map inj_onD)
    then have a: "dec (row_id v) \<noteq> dec (row_id r)" using dec_inj by blast
    from newer assms(9) have b: "toISOString (created_at v) \<noteq> toISOString (created_at r)"
      by (auto dest: injD)
    from a b assms(10) [of "created_at v" "row_id r"] assms(10) [of "created_at r" "row_id v"] assms(11)
    show ?thesis by metis
  qed
  then have nf: "find (\<lambda>v. dec (row_id v) = versionId \<or> toISOString (created_at v) = versionId) ?top = None"
    by (simp add: find_None_iff)
  show ?thesis
    using assms(1-4) nf
    by (simp add: getComponentVersion_def db_defs io_defs sql_limit_def)
qed

theorem old_version_not_found_witness:
  "version 1 \<in> set (component_history eleven_versions) \<and>
   length (filter (\<lambda>v. component_id v = ''progress'' \<and> created_at (version 1) < created_at v)
             (component_history eleven_versions)) = 10 \<and>
   fst (getComponentVersion toISOString_stub db_env ''progress'' ''1'' eleven_versions)
     = Inl (VersionNotFound ''1'' ''progress'')"
  using old_version_not_found [of db_env "''progress''" "version 1" eleven_versions toISOString_stub "''1''"]
    stub_inj stub_not_dec
  by (simp add: eleven_versions_def version_def js_get_def components_def dec_small scenario_defs)

section \<open>Claims about appendToComponent\<close>

text \<open>
  C7, as the code has it: for a known component and when no backend operation fails,
  \<open>appendToComponent\<close> with content \<open>c\<close> leaves the backend as \<open>updateComponent\<close> with the
  current content followed by \<open>c\<close> does (the current content being empty when the
  component is absent): in file mode, for non-empty \<open>c\<close>, the same component files and
  the same history versions; in database mode the same components table, history table
  and cache. But it publishes no component-created or component-updated notification:
  the callback invocations for these two event types are those made before the call.
\<close>

theorem append_backend_as_update:
  assumes "\<And>op. \<not> faulty env op" and "map_of components n = Some f"
    and "c \<noteq> [] \<or> useDatabase env"
  shows "(\<not> useDatabase env \<longrightarrow>
            files (snd (appendToComponent env clk n c w)) =
              files (snd (updateComponent env clk n
                ((case files w f of None \<Rightarrow> [] | Some p \<Rightarrow> p) @ c) w)) \<and>
            history_dirs (snd (appendToComponent env clk n c w)) =
              history_dirs (snd (updateComponent env clk n
                ((case files w f of None \<Rightarrow> [] | Some p \<Rightarrow> p) @ c) w))) \<and>
         (useDatabase env \<longrightarrow>
            components_table (snd (appendToComponent env clk n c w)) =
              components_table (snd (updateComponent env clk n
                ((case map_of (components_table w) n of None \<Rightarrow> [] | Some r \<Rightarrow> comp_content r) @ c) w)) \<and>
            component_history (snd (appendToComponent env clk n c w)) =
              component_history (snd (updateComponent env clk n
                ((case map_of (components_table w) n of None \<Rightarrow> [] | Some r \<Rightarrow> comp_content r) @ c) w)) \<and>
            cache_data (snd (appendToComponent env clk n c w)) =
              cache_data (snd (updateComponent env clk n
                ((case map_of (components_table w) n of None \<Rightarrow> [] | Some r \<Rightarrow> comp_content r) @ c) w))) \<and>
         filter (\<lambda>x. fst (snd x) = ''component-updated'' \<or> fst (snd x) = ''component-created'')
            (delivered (notificationManager (snd (appendToComponent env clk n c w))))
         = filter (\<lambda>x. fst (snd x) = ''component-updated'' \<or> fst (snd x) = ''component-created'')
            (delivered (notificationManager w))"
proof (cases "useDatabase env")
  case True
  have t: "truthy (js_get components n)"
    using known_name [OF assms(2)] by simp
  show ?thesis
    using True appendToComponent_db_proj [OF assms(1) True t] by simp
next
  case False
  with assms(3) have c: "c \<noteq> []" by simp
  note a = appendToComponent_file_proj [OF assms(1) False assms(2)]
  note u = updateComponent_file_proj [OF assms(1) False assms(2)]
  show ?thesis
    using False c
    by (auto simp add: a u history_added_keeps_component_events split: option.splits)
qed

theorem append_backend_as_update_witness:
  "map_of components ''progress'' = Some ''progress.md'' \<and>
   files (snd (appendToComponent file_env t1 ''progress'' ''x'' (stored ''p''))) ''progress.md''
     = Some ''px'' \<and>
   files (snd (appendToComponent file_env t1 ''progress'' ''x'' (stored ''p'')))
     = files (snd (updateComponent file_env t1 ''progress'' ''px'' (stored ''p''))) \<and>
   history_dirs (snd (appendToComponent file_env t1 ''progress'' ''x'' (stored ''p'')))
     = history_dirs (snd (updateComponent file_env t1 ''progress'' ''px'' (stored ''p'')))"
  using append_backend_as_update [of file_env "''progress''" "''progress.md''" "''x''" t1 "stored ''p''"]
    appendToComponent_file_proj(1) [of file_env "''progress''" "''progress.md''" t1 "''x''" "stored ''p''"]
  by (simp add: components_def stored_def scenario_defs)

text \<open>
  C7 as stated fails. With a subscriber to every event type, updating the progress
  component to \<open>px\<close> invokes the subscriber for the history addition and for the
  component update; appending \<open>x\<close> to the content \<open>p\<close> invokes it for the history addition
  only. And appending the empty string writes a history version, where the update with
  the unchanged content writes none.
\<close>

theorem append_differs_from_update:
  "map (fst \<circ> snd) (delivered (notificationManager
      (snd (updateComponent file_env t2 ''progress'' ''px'' watched))))
     = [''component-history-added'', ''component-updated''] \<and>
   map (fst \<circ> snd) (delivered (notificationManager
      (snd (appendToComponent file_env t2 ''progress'' ''x'' watched))))
     = [''component-history-added''] \<and>
   history_dirs (snd (updateComponent file_env t2 ''progress'' ''p'' watched)) ''progress'' = None \<and>
   history_dirs (snd (appendToComponent file_env t2 ''progress'' [] watched)) ''progress''
     = Some [(''2024-01-01T00-00-00-002Z.md'', ''p'')]"
  by (simp add: watched_def stored_def subscribe_def EVENT_TYPES_def quiet_callback_def file_eval)

section \<open>Claims about backend errors\<close>




end
